theory Spec2Isabelle
  imports Complex_Main "HOL-Library.AList"
begin

section \<open>Python values, dictionaries and exceptions\<close>

text \<open>
  The values that flow through \<^verbatim>\<open>compute_funcs.py\<close>: \<^verbatim>\<open>None\<close>, booleans, integers,
  floats, strings and lists. Floats are idealised as real numbers: the arithmetic below is
  exact, so rounding, infinities and not-a-number are outside this development.
\<close>

datatype pyval =
    PNone
  | PBool bool
  | PInt int
  | PFloat real
  | PStr string
  | PList "pyval list"

text \<open>
  A Python \<^verbatim>\<open>dict\<close> with string keys keeps insertion order; it is an association list
  with distinct keys. \<^verbatim>\<open>d.update({k: v})\<close> is \<^const>\<open>AList.update\<close> (the value is replaced
  where the key stands, a new key goes last) and \<^verbatim>\<open>del d[k]\<close> is \<^const>\<open>AList.delete\<close>.
\<close>

type_synonym pydict = "(string \<times> pyval) list"

text \<open>
  Every \<^verbatim>\<open>raise\<close> of the sources is a \<^verbatim>\<open>ValueError\<close>; the constructor's argument
  names the raise site by the error kind the specification gives it. The other constructors
  are the exceptions the interpreter and numpy raise themselves.
\<close>

datatype value_error =
    UnknownCompute
  | InvalidEnergySource
  | InvalidArgument
  | OriginCount
  | Broadcast
  | Concatenate

datatype error =
    ValueError value_error
  | KeyError
  | IndexError
  | TypeError
  | ZeroDivisionError
  | LinAlgError

definition bindE :: "error + 'a \<Rightarrow> ('a \<Rightarrow> error + 'b) \<Rightarrow> error + 'b" where
  "bindE m f = (case m of Inl e \<Rightarrow> Inl e | Inr x \<Rightarrow> f x)"

text \<open>\<^verbatim>\<open>d.get(k)\<close>: \<^verbatim>\<open>None\<close> for a missing key.\<close>

definition py_get :: "pydict \<Rightarrow> string \<Rightarrow> pyval" where
  "py_get d k = (case map_of d k of None \<Rightarrow> PNone | Some v \<Rightarrow> v)"

text \<open>\<^verbatim>\<open>d[k]\<close>: \<^verbatim>\<open>KeyError\<close> for a missing key.\<close>

definition py_item :: "pydict \<Rightarrow> string \<Rightarrow> error + pyval" where
  "py_item d k = (case map_of d k of None \<Rightarrow> Inl KeyError | Some v \<Rightarrow> Inr v)"

text \<open>
  Python's \<^verbatim>\<open>==\<close>: booleans and integers compare as numbers with floats, lists compare
  elementwise, values of different kinds are unequal.
\<close>

fun py_num :: "pyval \<Rightarrow> real option" where
  "py_num (PBool b) = Some (if b then 1 else 0)"
| "py_num (PInt i) = Some (real_of_int i)"
| "py_num (PFloat r) = Some r"
| "py_num _ = None"

fun py_eq :: "pyval \<Rightarrow> pyval \<Rightarrow> bool"
  and py_eq_list :: "pyval list \<Rightarrow> pyval list \<Rightarrow> bool" where
  "py_eq (PList xs) (PList ys) = py_eq_list xs ys"
| "py_eq (PList xs) PNone = False"
| "py_eq (PList xs) (PBool b) = False"
| "py_eq (PList xs) (PInt i) = False"
| "py_eq (PList xs) (PFloat r) = False"
| "py_eq (PList xs) (PStr s) = False"
| "py_eq PNone y = (y = PNone)"
| "py_eq (PStr s) y = (y = PStr s)"
| "py_eq (PBool b) y = (py_num y = Some (if b then 1 else 0))"
| "py_eq (PInt i) y = (py_num y = Some (real_of_int i))"
| "py_eq (PFloat r) y = (py_num y = Some r)"
| "py_eq_list [] ys = (ys = [])"
| "py_eq_list (x # xs) [] = False"
| "py_eq_list (x # xs) (y # ys) = (py_eq x y \<and> py_eq_list xs ys)"

text \<open>\<^verbatim>\<open>xs[i]\<close> on a list: a negative index counts from the end, out of range raises.\<close>

definition py_index :: "'a list \<Rightarrow> int \<Rightarrow> error + 'a" where
  "py_index xs i =
     (if 0 \<le> i \<and> i < int (length xs) then Inr (xs ! nat i)
      else if i < 0 \<and> - int (length xs) \<le> i then Inr (xs ! nat (int (length xs) + i))
      else Inl IndexError)"

section \<open>The compute registry and the predefined variables\<close>

text \<open>
  \<^verbatim>\<open>PREDEFINED_VARS\<close> is a module-level dict of six dicts. Its keys never change, so it is a
  function on the six keys; the six dicts are the only objects that \<^verbatim>\<open>get_depends\<close> shares
  between its results and later calls, and it mutates them in place when it adds or removes
  \<^verbatim>\<open>vals\<close>. The current contents of the six dicts is therefore a state that is passed to
  \<^verbatim>\<open>get_depends\<close> and returned updated.
\<close>

datatype predefined_key =
    Key_gb_area
  | Key_gb_boundary_vac
  | Key_sup_type
  | Key_gb_dist_initial
  | Key_gb_dist_final
  | Key_gb_dist_change

type_synonym predefined = "predefined_key \<Rightarrow> pydict"

fun PREDEFINED_VARS :: predefined where
  "PREDEFINED_VARS Key_gb_area =
     [(''type'', PStr ''compute''), (''name'', PStr ''gb_area''), (''id'', PStr ''gb_area'')]"
| "PREDEFINED_VARS Key_gb_boundary_vac =
     [(''type'', PStr ''compute''), (''name'', PStr ''gb_boundary_vac''),
      (''id'', PStr ''gb_boundary_vac'')]"
| "PREDEFINED_VARS Key_sup_type =
     [(''type'', PStr ''compute''), (''name'', PStr ''supercell_type''),
      (''id'', PStr ''supercell_type'')]"
| "PREDEFINED_VARS Key_gb_dist_initial =
     [(''type'', PStr ''compute''), (''name'', PStr ''atoms_gb_dist_initial''),
      (''id'', PStr ''atoms_gb_dist_initial'')]"
| "PREDEFINED_VARS Key_gb_dist_final =
     [(''type'', PStr ''compute''), (''name'', PStr ''atoms_gb_dist_final''),
      (''id'', PStr ''atoms_gb_dist_final'')]"
| "PREDEFINED_VARS Key_gb_dist_change =
     [(''type'', PStr ''compute''), (''name'', PStr ''atoms_gb_dist_change''),
      (''id'', PStr ''atoms_gb_dist_change'')]"

text \<open>
  An element of a list of definitions is either one of the six shared dicts or a dict that
  the call built itself; a dict of the second kind is reachable from one place only, so it
  is held by value.
\<close>

datatype obj = Predefined predefined_key | Fresh pydict

fun deref :: "predefined \<Rightarrow> obj \<Rightarrow> pydict" where
  "deref pv (Predefined k) = pv k"
| "deref pv (Fresh d) = d"

text \<open>The keys of \<^verbatim>\<open>SINGLE_COMPUTE_LOOKUP\<close> and \<^verbatim>\<open>MULTI_COMPUTE_LOOKUP\<close>, in order.\<close>

definition SINGLE_COMPUTE_LOOKUP_keys :: "string list" where
  "SINGLE_COMPUTE_LOOKUP_keys =
     [''num_atoms'', ''energy'', ''energy_per_atom'', ''gb_area'', ''supercell_type'',
      ''gb_thickness'', ''gb_boundary_vac'', ''atoms_gb_dist_initial'',
      ''atoms_gb_dist_final'', ''atoms_gb_dist_change'']"

definition MULTI_COMPUTE_LOOKUP_keys :: "string list" where
  "MULTI_COMPUTE_LOOKUP_keys = [''gb_energy'', ''gamma_surface_info'', ''master_gamma'']"

definition allowed_computes :: "string list" where
  "allowed_computes = SINGLE_COMPUTE_LOOKUP_keys @ MULTI_COMPUTE_LOOKUP_keys"

section \<open>Dependency resolution\<close>

text \<open>
  Modelled from the spec: the test of \<^verbatim>\<open>dict_from_list\<close> (\<^verbatim>\<open>atsim.utils\<close>, not among the
  sources) on one dict. The specification matches a definition by its non-\<^verbatim>\<open>vals\<close> keys
  and a variable by its id: a dict matches when it holds every given key with an equal
  value.
\<close>

definition dict_matches :: "pydict \<Rightarrow> pydict \<Rightarrow> bool" where
  "dict_matches el conditions =
     list_all (\<lambda>(k, v). case map_of el k of None \<Rightarrow> False | Some w \<Rightarrow> py_eq w v) conditions"

text \<open>
  Modelled from the spec: \<^verbatim>\<open>dict_from_list\<close> of \<^verbatim>\<open>atsim.utils\<close> is not among the sources.
  The specification uses it to search a list of definitions for the first one that
  matches the given key-values; the result is \<^verbatim>\<open>None\<close> when there is none.
\<close>

definition dict_from_list :: "pydict list \<Rightarrow> pydict \<Rightarrow> pydict option" where
  "dict_from_list lst conditions = find (\<lambda>el. dict_matches el conditions) lst"

text \<open>
  Lines 201 to 206, for one dict: \<^verbatim>\<open>vals\<close> is set to the empty list where it is missing
  (or \<^verbatim>\<open>None\<close>) and wanted, and deleted where it is there and not wanted.
\<close>

definition set_vals :: "bool \<Rightarrow> pydict \<Rightarrow> pydict" where
  "set_vals inc_val v =
     (if py_get v ''vals'' = PNone \<and> inc_val then AList.update ''vals'' (PList []) v
      else if py_get v ''vals'' \<noteq> PNone \<and> \<not> inc_val then AList.delete ''vals'' v
      else v)"

text \<open>The loop over \<^verbatim>\<open>out\<close>: a shared dict is changed in the state, an own dict in the list.\<close>

fun vals_loop :: "bool \<Rightarrow> obj list \<Rightarrow> predefined \<Rightarrow> obj list \<times> predefined" where
  "vals_loop inc_val [] pv = ([], pv)"
| "vals_loop inc_val (Predefined k # out) pv =
     (let (out', pv') = vals_loop inc_val out (pv(k := set_vals inc_val (pv k)))
      in (Predefined k # out', pv'))"
| "vals_loop inc_val (Fresh d # out) pv =
     (let (out', pv') = vals_loop inc_val out pv
      in (Fresh (set_vals inc_val d) # out', pv'))"

text \<open>Lines 196 to 208: append \<^verbatim>\<open>d\<close> unless it is found in \<^verbatim>\<open>out\<close>, then the loop.\<close>

definition finish :: "predefined \<Rightarrow> bool \<Rightarrow> obj list \<Rightarrow> pydict \<Rightarrow> obj list \<times> predefined" where
  "finish pv inc_val out d =
     (let out = (if dict_from_list (map (deref pv) out) d = None then out @ [Fresh d] else out)
      in vals_loop inc_val out pv)"

text \<open>The three series-index dicts of the \<^verbatim>\<open>gamma_surface_info\<close> branch.\<close>

definition series_idx_defs :: "bool \<Rightarrow> obj list" where
  "series_idx_defs inc_id =
     (let csi_idx = [(''name'', PStr ''csi_idx''), (''type'', PStr ''series_id''),
                     (''col_id'', PStr ''relative_shift'')];
          grid_idx = [(''type'', PStr ''series_id''), (''name'', PStr ''grid_idx''),
                      (''col_id'', PStr ''relative_shift'')];
          point_idx = [(''type'', PStr ''series_id''), (''name'', PStr ''point_idx''),
                       (''col_id'', PStr ''relative_shift'')]
      in map (\<lambda>(i, j). Fresh (if inc_id then AList.update ''id'' (PStr j) i else i))
           (zip [csi_idx, grid_idx, point_idx] [''csi_idx'', ''grid_idx'', ''point_idx'']))"

text \<open>
  \<^verbatim>\<open>get_depends(compute_name, inc_id, inc_val, **kwargs)\<close>. The \<^verbatim>\<open>master_gamma\<close> branch
  passes \<^verbatim>\<open>inv_val=inc_val\<close> to its nested calls: the keyword lands in \<^verbatim>\<open>kwargs\<close> and the
  nested call runs with the default \<^verbatim>\<open>inc_val=True\<close>.
\<close>

function get_depends ::
  "predefined \<Rightarrow> string \<Rightarrow> bool \<Rightarrow> bool \<Rightarrow> pydict \<Rightarrow> error + (obj list \<times> predefined)" where
  "get_depends pv compute_name inc_id inc_val kwargs =
    (if compute_name \<notin> set allowed_computes then Inl (ValueError UnknownCompute)
     else
      let d = [(''type'', PStr ''compute''), (''name'', PStr compute_name)];
          d = (if inc_id then AList.update ''id'' (PStr compute_name) d else d)
      in
      if compute_name = ''gb_energy'' then
        bindE (py_item kwargs ''energy_src'') (\<lambda>energy_src.
        bindE (py_item kwargs ''opt_step'') (\<lambda>opt_step.
        bindE (py_item kwargs ''series_id'') (\<lambda>series_id.
        bindE (py_item kwargs ''unit'') (\<lambda>unit.
        let d = AList.update ''unit'' unit (AList.update ''series_id'' series_id
                 (AList.update ''opt_step'' opt_step
                   (AList.update ''energy_src'' energy_src d)))
        in
        bindE (get_depends pv ''energy'' inc_id inc_val
                 [(''energy_src'', energy_src), (''opt_step'', opt_step)]) (\<lambda>(o1, pv1).
        bindE (get_depends pv1 ''num_atoms'' inc_id inc_val []) (\<lambda>(o2, pv2).
        Inr (finish pv2 inc_val
               (o1 @ o2 @ [Predefined Key_gb_area, Predefined Key_sup_type]) d)))))))
      else if compute_name = ''energy_per_atom'' then
        bindE (py_item kwargs ''energy_src'') (\<lambda>energy_src.
        bindE (py_item kwargs ''opt_step'') (\<lambda>opt_step.
        let d = AList.update ''opt_step'' opt_step (AList.update ''energy_src'' energy_src d)
        in
        bindE (get_depends pv ''num_atoms'' inc_id inc_val []) (\<lambda>(o1, pv1).
        bindE (get_depends pv1 ''energy'' inc_id inc_val
                 [(''energy_src'', energy_src), (''opt_step'', opt_step)]) (\<lambda>(o2, pv2).
        Inr (finish pv2 inc_val (o1 @ o2) d)))))
      else if compute_name = ''gamma_surface_info'' then
        bindE (py_item kwargs ''info_name'') (\<lambda>info_name.
        let d = AList.update ''info_name'' info_name d
        in Inr (finish pv inc_val (series_idx_defs inc_id) d))
      else if compute_name = ''master_gamma'' then
        bindE (py_item kwargs ''energy_src'') (\<lambda>energy_src.
        bindE (py_item kwargs ''opt_step'') (\<lambda>opt_step.
        bindE (py_item kwargs ''series_id'') (\<lambda>series_id.
        bindE (py_item kwargs ''unit'') (\<lambda>unit.
        let d = AList.update ''unit'' unit (AList.update ''series_id'' series_id
                 (AList.update ''opt_step'' opt_step
                   (AList.update ''energy_src'' energy_src d)));
            inv = (''inv_val'', PBool inc_val)
        in
        bindE (get_depends pv ''gb_energy'' inc_id True
                 [inv, (''energy_src'', energy_src), (''opt_step'', opt_step),
                  (''series_id'', series_id), (''unit'', unit)]) (\<lambda>(o1, pv1).
        bindE (get_depends pv1 ''gamma_surface_info'' inc_id True
                 [inv, (''info_name'', PStr ''row_idx'')]) (\<lambda>(o2, pv2).
        bindE (get_depends pv2 ''gamma_surface_info'' inc_id True
                 [inv, (''info_name'', PStr ''col_idx'')]) (\<lambda>(o3, pv3).
        bindE (get_depends pv3 ''gamma_surface_info'' inc_id True
                 [inv, (''info_name'', PStr ''x_std_vals'')]) (\<lambda>(o4, pv4).
        bindE (get_depends pv4 ''gamma_surface_info'' inc_id True
                 [inv, (''info_name'', PStr ''y_std_vals'')]) (\<lambda>(o5, pv5).
        bindE (get_depends pv5 ''gamma_surface_info'' inc_id True
                 [inv, (''info_name'', PStr ''x_frac_vals'')]) (\<lambda>(o6, pv6).
        bindE (get_depends pv6 ''gamma_surface_info'' inc_id True
                 [inv, (''info_name'', PStr ''y_frac_vals'')]) (\<lambda>(o7, pv7).
        bindE (get_depends pv7 ''gamma_surface_info'' inc_id True
                 [inv, (''info_name'', PStr ''grid_shape'')]) (\<lambda>(o8, pv8).
        Inr (finish pv8 inc_val
               (o1 @ o2 @ o3 @ o4 @ o5 @ o6 @ o7 @ o8 @ [Predefined Key_gb_boundary_vac])
               d)))))))))))))
      else if compute_name = ''energy'' then
        bindE (py_item kwargs ''energy_src'') (\<lambda>energy_src.
        let d = AList.update ''energy_src'' energy_src d;
            opt_step = py_get kwargs ''opt_step'';
            d = (if opt_step \<noteq> PNone then AList.update ''opt_step'' opt_step d else d)
        in Inr (finish pv inc_val [] d))
      else if compute_name = ''atoms_gb_dist_change'' then
        Inr (finish pv inc_val
               [Predefined Key_gb_dist_initial, Predefined Key_gb_dist_final,
                Predefined Key_sup_type] d)
      else Inr (finish pv inc_val [] d))"
  by pat_completeness auto

text \<open>
  The nesting of the calls is fixed by the names: \<^verbatim>\<open>master_gamma\<close> calls \<^verbatim>\<open>gb_energy\<close>
  and \<^verbatim>\<open>gamma_surface_info\<close>, \<^verbatim>\<open>gb_energy\<close> and \<^verbatim>\<open>energy_per_atom\<close> call
  \<^verbatim>\<open>energy\<close> and \<^verbatim>\<open>num_atoms\<close>, which call nothing.
\<close>

definition depth :: "string \<Rightarrow> nat" where
  "depth n = (if n = ''master_gamma'' then 2
              else if n = ''gb_energy'' \<or> n = ''energy_per_atom'' then 1 else 0)"

termination get_depends
  apply (relation "measure (\<lambda>(pv, n, i, v, k). depth n)")
  apply (simp_all add: depth_def)
  done

declare get_depends.simps [simp del]

text \<open>The dict \<^verbatim>\<open>d\<close> as the branches of \<^verbatim>\<open>get_depends\<close> build it, before \<^verbatim>\<open>vals\<close>.\<close>

definition base_defn :: "string \<Rightarrow> bool \<Rightarrow> pydict" where
  "base_defn compute_name inc_id =
     [(''type'', PStr ''compute''), (''name'', PStr compute_name)] @
     (if inc_id then [(''id'', PStr compute_name)] else [])"

definition energy_defn :: "bool \<Rightarrow> pyval \<Rightarrow> pyval \<Rightarrow> pydict" where
  "energy_defn inc_id energy_src opt_step =
     base_defn ''energy'' inc_id @ [(''energy_src'', energy_src)] @
     (if opt_step \<noteq> PNone then [(''opt_step'', opt_step)] else [])"

definition gb_energy_defn :: "string \<Rightarrow> bool \<Rightarrow> pyval \<Rightarrow> pyval \<Rightarrow> pyval \<Rightarrow> pyval \<Rightarrow> pydict" where
  "gb_energy_defn compute_name inc_id energy_src opt_step series_id unit =
     base_defn compute_name inc_id @
     [(''energy_src'', energy_src), (''opt_step'', opt_step), (''series_id'', series_id),
      (''unit'', unit)]"

definition info_defn :: "bool \<Rightarrow> pyval \<Rightarrow> pydict" where
  "info_defn inc_id info_name =
     base_defn ''gamma_surface_info'' inc_id @ [(''info_name'', info_name)]"

text \<open>
  What the callers of \<^verbatim>\<open>get_depends\<close> leave of \<^verbatim>\<open>PREDEFINED_VARS\<close>: each of the six dicts
  is as the module declares it, apart from a \<^verbatim>\<open>vals\<close> entry, which is a sequence when it is
  there (never \<^verbatim>\<open>None\<close>).
\<close>

definition predefined_keys :: "predefined_key list" where
  "predefined_keys = [Key_gb_area, Key_gb_boundary_vac, Key_sup_type, Key_gb_dist_initial,
                      Key_gb_dist_final, Key_gb_dist_change]"

definition pv_ok :: "predefined \<Rightarrow> bool" where
  "pv_ok pv = list_all (\<lambda>k. AList.delete ''vals'' (pv k) = PREDEFINED_VARS k \<and>
                             map_of (pv k) ''vals'' \<noteq> Some PNone) predefined_keys"

text \<open>
  What the loop of lines 201 to 206 does to a list and to the shared dicts, in closed form:
  every own dict of the list and every shared dict that the list holds goes through
  \<^const>\<open>set_vals\<close>, the other shared dicts stay.
\<close>

fun touch :: "bool \<Rightarrow> obj \<Rightarrow> obj" where
  "touch b (Predefined k) = Predefined k"
| "touch b (Fresh d) = Fresh (set_vals b d)"

definition touched :: "bool \<Rightarrow> obj list \<Rightarrow> predefined \<Rightarrow> predefined" where
  "touched b out pv = (\<lambda>k. if Predefined k \<in> set out then set_vals b (pv k) else pv k)"

text \<open>
  A result \<^verbatim>\<open>(out, pv')\<close> of a call with \<^verbatim>\<open>inc_val = b\<close> from the state \<^verbatim>\<open>pv\<close>: the shared
  dicts of \<^verbatim>\<open>out\<close> went through \<^const>\<open>set_vals\<close> once, and the own dicts carry the empty
  \<^verbatim>\<open>vals\<close> or none.
\<close>

definition res_ok :: "bool \<Rightarrow> predefined \<Rightarrow> obj list \<times> predefined \<Rightarrow> bool" where
  "res_ok b pv r = (snd r = touched b (fst r) pv \<and>
     (\<forall>d. Fresh d \<in> set (fst r) \<longrightarrow> map_of d ''vals'' = (if b then Some (PList []) else None)))"

section \<open>Simulations and the output store\<close>


text \<open>
  The output dict \<^verbatim>\<open>out\<close>. Its \<^verbatim>\<open>variables\<close> are definitions that \<^verbatim>\<open>get_depends\<close> returned
  to the caller, so an element may be one of the six shared dicts.
\<close>

record store =
  variables :: "obj list"
  series_name :: "pyval list"
  series_id_val :: "pyval list list"
  session_id :: "pyval list"
  session_id_idx :: "int list"



section \<open>Single-simulation computes\<close>

text \<open>\<^verbatim>\<open>x[i]\<close> on a value: lists and strings can be indexed, by an integer.\<close>

definition py_subscript :: "pyval \<Rightarrow> int \<Rightarrow> error + pyval" where
  "py_subscript x i =
     (case x of
        PList xs \<Rightarrow> py_index xs i
      | PStr s \<Rightarrow> bindE (py_index s i) (\<lambda>c. Inr (PStr [c]))
      | _ \<Rightarrow> Inl TypeError)"













section \<open>The aggregate compute \<^verbatim>\<open>gb_energy\<close>\<close>

text \<open>
  Arithmetic on values: a value that is no number is a \<^verbatim>\<open>TypeError\<close>, a zero divisor a
  \<^verbatim>\<open>ZeroDivisionError\<close>. The results of \<^verbatim>\<open>/\<close> and of arithmetic with a float are floats.
\<close>

definition as_num :: "pyval \<Rightarrow> error + real" where
  "as_num x = (case py_num x of None \<Rightarrow> Inl TypeError | Some r \<Rightarrow> Inr r)"

definition py_truediv :: "real \<Rightarrow> real \<Rightarrow> error + real" where
  "py_truediv a b = (if b = 0 then Inl ZeroDivisionError else Inr (a / b))"

text \<open>Iteration over a value: the elements of a list, the characters of a string.\<close>

definition py_iter :: "pyval \<Rightarrow> error + pyval list" where
  "py_iter x =
     (case x of
        PList xs \<Rightarrow> Inr xs
      | PStr s \<Rightarrow> Inr (map (\<lambda>c. PStr [c]) s)
      | _ \<Rightarrow> Inl TypeError)"

text \<open>
  Lines 402 to 406: the energy of the boundary of bicrystal \<^verbatim>\<open>gb_i\<close> against bulk
  \<^verbatim>\<open>bulk_i\<close>, in the order in which Python evaluates the operands.
\<close>

definition E_gb_of :: "pyval \<Rightarrow> pyval \<Rightarrow> pyval \<Rightarrow> nat \<Rightarrow> nat \<Rightarrow> error + real" where
  "E_gb_of energy_v num_atoms area gb_i bulk_i =
     bindE (py_subscript num_atoms (int gb_i)) (\<lambda>gb_num.
     bindE (py_subscript num_atoms (int bulk_i)) (\<lambda>bulk_num.
     bindE (as_num gb_num) (\<lambda>gn.
     bindE (as_num bulk_num) (\<lambda>bn.
     bindE (py_truediv gn bn) (\<lambda>bulk_frac.
     bindE (py_subscript energy_v (int gb_i)) (\<lambda>e_gb.
     bindE (py_subscript energy_v (int bulk_i)) (\<lambda>e_bulk.
     bindE (as_num e_bulk) (\<lambda>eb.
     bindE (as_num e_gb) (\<lambda>eg.
     bindE (py_subscript area (int gb_i)) (\<lambda>a.
     bindE (as_num a) (\<lambda>ar.
     py_truediv (eg - bulk_frac * eb) (2 * ar))))))))))))"

text \<open>
  Lines 400 to 406, the loop over \<^verbatim>\<open>bulk_idx\<close> for one bicrystal: there is no
  \<^verbatim>\<open>break\<close>, every bulk simulation with equal series values assigns \<^verbatim>\<open>E_gb\<close> anew.
\<close>

fun bulk_loop ::
  "pyval \<Rightarrow> pyval \<Rightarrow> pyval \<Rightarrow> pyval list list \<Rightarrow> nat \<Rightarrow> nat list \<Rightarrow> real option
     \<Rightarrow> error + real option" where
  "bulk_loop energy_v num_atoms area srs_vals gb_i [] E_gb = Inr E_gb"
| "bulk_loop energy_v num_atoms area srs_vals gb_i (bulk_i # bulk_idx) E_gb =
     bindE (py_index srs_vals (int gb_i)) (\<lambda>sg.
     bindE (py_index srs_vals (int bulk_i)) (\<lambda>sb.
       if py_eq_list sg sb then
         bindE (E_gb_of energy_v num_atoms area gb_i bulk_i) (\<lambda>e.
           bulk_loop energy_v num_atoms area srs_vals gb_i bulk_idx (Some e))
       else bulk_loop energy_v num_atoms area srs_vals gb_i bulk_idx E_gb))"

text \<open>Lines 398 to 411, the loop over \<^verbatim>\<open>gb_idx\<close> with the list \<^verbatim>\<open>all_E_gb\<close>.\<close>

fun gb_loop ::
  "pyval \<Rightarrow> pyval \<Rightarrow> pyval \<Rightarrow> pyval list list \<Rightarrow> pyval \<Rightarrow> nat list \<Rightarrow> nat list \<Rightarrow> pyval list
     \<Rightarrow> error + pyval list" where
  "gb_loop energy_v num_atoms area srs_vals unit bulk_idx [] all_E_gb = Inr all_E_gb"
| "gb_loop energy_v num_atoms area srs_vals unit bulk_idx (gb_i # gb_idx) all_E_gb =
     bindE (bulk_loop energy_v num_atoms area srs_vals gb_i bulk_idx None) (\<lambda>E_gb.
       case E_gb of
         None \<Rightarrow> gb_loop energy_v num_atoms area srs_vals unit bulk_idx gb_idx all_E_gb
       | Some e \<Rightarrow>
           (let e = (if py_eq unit (PStr ''J/m^2'') then e * 16.02176565 else e)
            in if gb_i < length all_E_gb then
                 gb_loop energy_v num_atoms area srs_vals unit bulk_idx gb_idx
                   (all_E_gb[gb_i := PFloat e])
               else Inl IndexError))"

text \<open>Lines 389 to 395: the indices of the bicrystal and of the bulk simulations.\<close>

definition gb_idx_of :: "pyval list \<Rightarrow> nat list" where
  "gb_idx_of sup_type =
     map fst (filter (\<lambda>(i_idx, i). py_eq i (PStr ''bicrystal'')) (enumerate 0 sup_type))"

definition bulk_idx_of :: "pyval list \<Rightarrow> nat list" where
  "bulk_idx_of sup_type =
     map fst (filter (\<lambda>(i_idx, i). \<not> py_eq i (PStr ''bicrystal'') \<and> py_eq i (PStr ''bulk''))
                (enumerate 0 sup_type))"

text \<open>Lines 389 to 411: the values that the function stores.\<close>

definition gb_energy_vals ::
  "pyval \<Rightarrow> pyval \<Rightarrow> pyval \<Rightarrow> pyval list \<Rightarrow> pyval list list \<Rightarrow> pyval \<Rightarrow> nat
     \<Rightarrow> error + pyval list" where
  "gb_energy_vals energy_v num_atoms area sup_type srs_vals unit num_sims =
     gb_loop energy_v num_atoms area srs_vals unit (bulk_idx_of sup_type) (gb_idx_of sup_type)
       (replicate num_sims PNone)"

text \<open>
  Modelled from the spec: \<^verbatim>\<open>get_col\<close> of \<^verbatim>\<open>atsim.utils\<close> is not among the sources. The
  specification takes the values of a declared series from the series table, at the index
  of the series name: \<^verbatim>\<open>get_col\<close> is the column of a table of rows.
\<close>

definition get_col :: "pyval list list \<Rightarrow> nat \<Rightarrow> error + pyval list" where
  "get_col a col_idx =
     foldr (\<lambda>row acc. bindE (py_index row (int col_idx)) (\<lambda>x. bindE acc (\<lambda>xs. Inr (x # xs))))
       a (Inr [])"

text \<open>
  Modelled from the spec: \<^verbatim>\<open>transpose_list\<close> of \<^verbatim>\<open>atsim.utils\<close> is not among the sources.
  The specification compares, for two simulations, the tuples of their series values:
  \<^verbatim>\<open>transpose_list\<close> turns the list of the columns of values into the list of the tuples
  (as many as the shortest column has entries).
\<close>

definition transpose_list :: "pyval list \<Rightarrow> error + pyval list list" where
  "transpose_list lst =
     bindE (foldr (\<lambda>c acc. bindE (py_iter c) (\<lambda>x. bindE acc (\<lambda>xs. Inr (x # xs)))) lst (Inr []))
       (\<lambda>cols. Inr (if cols = [] then []
                     else map (\<lambda>j. map (\<lambda>c. c ! j) cols)
                            [0..<foldr min (map length (tl cols)) (length (hd cols))]))"

text \<open>\<^verbatim>\<open>series_names.index(i)\<close> for an \<^verbatim>\<open>i\<close> that is in the list.\<close>

fun index_of :: "pyval list \<Rightarrow> pyval \<Rightarrow> nat" where
  "index_of [] i = 0"
| "index_of (x # xs) i = (if py_eq x i then 0 else Suc (index_of xs i))"

text \<open>Lines 375 to 383: one entry of \<^verbatim>\<open>srs_vals\<close> for each element of \<^verbatim>\<open>series_id\<close>.\<close>

fun series_loop :: "predefined \<Rightarrow> store \<Rightarrow> pyval list \<Rightarrow> error + pyval list" where
  "series_loop pv out [] = Inr []"
| "series_loop pv out (i # series_id) =
     bindE (if list_ex (\<lambda>n. py_eq n i) (series_name out) then
              bindE (get_col (series_id_val out) (index_of (series_name out) i))
                (\<lambda>col. Inr (PList col))
            else
              (case dict_from_list (map (deref pv) (variables out)) [(''id'', i)] of
                 None \<Rightarrow> Inl TypeError
               | Some v \<Rightarrow> py_item v ''vals''))
       (\<lambda>i_vals. bindE (series_loop pv out series_id) (\<lambda>rest. Inr (i_vals # rest)))"

text \<open>
  \<^verbatim>\<open>len(np.array(out['session_id'])[out['session_id_idx']])\<close>: one entry for each index,
  each of which has to be in range.
\<close>

definition num_sims_of :: "store \<Rightarrow> error + nat" where
  "num_sims_of out =
     (if list_all (\<lambda>i. - int (length (session_id out)) \<le> i \<and> i < int (length (session_id out)))
           (session_id_idx out)
      then Inr (length (session_id_idx out)) else Inl IndexError)"

text \<open>
  \<^verbatim>\<open>gb_energy(out, req_vars)\<close>. The function reads the shared dicts through the variables
  of \<^verbatim>\<open>out\<close> and changes none; it stores its values in the last dict of \<^verbatim>\<open>req_vars\<close>, and
  the list with that dict replaced is the result.
\<close>

definition vals_of :: "pydict list \<Rightarrow> int \<Rightarrow> error + pyval" where
  "vals_of req_vars i = bindE (py_index req_vars i) (\<lambda>v. py_item v ''vals'')"

definition gb_energy :: "predefined \<Rightarrow> store \<Rightarrow> pydict list \<Rightarrow> error + pydict list" where
  "gb_energy pv out req_vars =
     bindE (vals_of req_vars 0) (\<lambda>energy_v.
     bindE (vals_of req_vars 1) (\<lambda>num_atoms.
     bindE (vals_of req_vars 2) (\<lambda>area.
     bindE (vals_of req_vars 3) (\<lambda>sup_type.
     bindE (py_index req_vars (- 1)) (\<lambda>last_var.
     bindE (py_item last_var ''series_id'') (\<lambda>series_id.
     bindE (py_item last_var ''unit'') (\<lambda>unit.
     bindE (num_sims_of out) (\<lambda>num_sims.
     bindE (py_iter series_id) (\<lambda>ids.
     bindE (series_loop pv out ids) (\<lambda>srs_vals.
     bindE (transpose_list srs_vals) (\<lambda>srs_vals.
       let srs_vals = (if length srs_vals = 0 then replicate num_sims [PInt 0] else srs_vals)
       in
       bindE (py_iter sup_type) (\<lambda>sup_type.
       bindE (gb_energy_vals energy_v num_atoms area sup_type srs_vals unit num_sims)
         (\<lambda>all_E_gb.
           Inr (req_vars[length req_vars - 1 :=
                  AList.update ''vals'' (PList all_E_gb) last_var]))))))))))))))"

section \<open>Geometry of parallelepipeds\<close>

text \<open>
  \<^verbatim>\<open>geometry.py\<close> works on arrays of 3D column vectors. An array of shape \<^verbatim>\<open>(3, K)\<close> is
  the list of its \<^verbatim>\<open>K\<close> columns, a box of shape \<^verbatim>\<open>(3, 3)\<close> the triple of its edge vectors
  (its columns), and an array of shape \<^verbatim>\<open>(N, 3, K)\<close> a list of \<^verbatim>\<open>N\<close> lists of columns. The
  entries are reals: the dtype of an array and the rounding of floats are outside this
  development.
\<close>

type_synonym vec3 = "real \<times> real \<times> real"

type_synonym mat3 = "vec3 \<times> vec3 \<times> vec3"


definition zero3 :: vec3 where
  "zero3 = (0, 0, 0)"

fun vadd :: "vec3 \<Rightarrow> vec3 \<Rightarrow> vec3" where
  "vadd (a, b, c) (x, y, z) = (a + x, b + y, c + z)"

fun smul :: "real \<Rightarrow> vec3 \<Rightarrow> vec3" where
  "smul k (x, y, z) = (k * x, k * y, k * z)"



text \<open>\<^verbatim>\<open>m @ v\<close> for a matrix and a column vector.\<close>

fun mat_vec :: "mat3 \<Rightarrow> vec3 \<Rightarrow> vec3" where
  "mat_vec (c0, c1, c2) (x, y, z) = vadd (vadd (smul x c0) (smul y c1)) (smul z c2)"



























section \<open>Properties of dependency resolution\<close>

lemma bindE_simps [simp]: "bindE (Inl e) f = Inl e" "bindE (Inr x) f = f x"
  by (simp_all add: bindE_def)

lemma pv_ok_iff: "pv_ok pv \<longleftrightarrow> (\<forall>k. AList.delete ''vals'' (pv k) = PREDEFINED_VARS k \<and> map_of (pv k) ''vals'' \<noteq> Some PNone)"
proof -
  have "set predefined_keys = UNIV"
  proof -
    have "k \<in> set predefined_keys" for k by (cases k) (simp_all add: predefined_keys_def)
    then show ?thesis by auto
  qed
  then show ?thesis by (simp add: pv_ok_def list_all_iff)
qed

lemma delete_absent: "map_of d k = None \<Longrightarrow> AList.delete k d = d"
  by (induction d) (auto split: if_splits)

lemma set_vals_True_vals:
  "map_of (set_vals True v) ''vals'' =
     Some (case map_of v ''vals'' of None \<Rightarrow> PList [] | Some PNone \<Rightarrow> PList [] | Some w \<Rightarrow> w)"
  by (auto simp: set_vals_def py_get_def update_conv' split: option.splits pyval.splits)

lemma set_vals_False_vals:
  "map_of v ''vals'' \<noteq> Some PNone \<Longrightarrow> map_of (set_vals False v) ''vals'' = None"
  by (auto simp: set_vals_def py_get_def AList.delete_conv' split: option.splits)

lemma set_vals_idem: "set_vals b (set_vals b v) = set_vals b v"
  by (cases b) (auto simp: set_vals_def py_get_def update_conv' AList.delete_conv' split: option.splits)

lemma set_vals_after_True:
  "map_of v ''vals'' \<noteq> Some PNone \<Longrightarrow> set_vals b (set_vals True v) = set_vals b v"
  apply (cases b)
   apply (simp add: set_vals_idem)
  apply (auto simp: set_vals_def py_get_def update_conv' AList.delete_conv' delete_absent AList.delete_update_same split: option.splits)
  done

lemma delete_set_vals: "AList.delete ''vals'' (set_vals b v) = AList.delete ''vals'' v"
  by (auto simp: set_vals_def AList.delete_update_same AList.delete_idem)


lemma vals_loop_eq: "vals_loop b out pv = (map (touch b) out, touched b out pv)"
proof (induction b out pv rule: vals_loop.induct)
  case (1 inc_val pv)
  show ?case by (simp add: touched_def)
next
  case (2 inc_val k out pv)
  have "vals_loop inc_val (Predefined k # out) pv =
          (Predefined k # map (touch inc_val) out,
           touched inc_val out (pv(k := set_vals inc_val (pv k))))"
    using 2 by (simp add: fun_upd_def)
  moreover have "touched inc_val out (pv(k := set_vals inc_val (pv k))) =
                 touched inc_val (Predefined k # out) pv"
    by (auto simp: touched_def fun_eq_iff set_vals_idem)
  ultimately show ?case by simp
next
  case (3 inc_val d out pv)
  then show ?case by (auto simp: touched_def fun_eq_iff)
qed

lemma allowed_simp:
  "n \<in> set allowed_computes \<longleftrightarrow> n \<in> {''num_atoms'', ''energy'', ''energy_per_atom'', ''gb_area'', ''supercell_type'',
      ''gb_thickness'', ''gb_boundary_vac'', ''atoms_gb_dist_initial'',
      ''atoms_gb_dist_final'', ''atoms_gb_dist_change'', ''gb_energy'', ''gamma_surface_info'', ''master_gamma''}"
  by (simp add: allowed_computes_def SINGLE_COMPUTE_LOOKUP_keys_def MULTI_COMPUTE_LOOKUP_keys_def)

lemma get_depends_energy:
  "get_depends pv ''energy'' inc_id inc_val kw =
     bindE (py_item kw ''energy_src'') (\<lambda>es.
       Inr ([Fresh (set_vals inc_val (energy_defn inc_id es (py_get kw ''opt_step'')))], pv))"
  apply (subst get_depends.simps)
  apply (simp add: allowed_simp vals_loop_eq touched_def
      finish_def dict_from_list_def energy_defn_def base_defn_def Let_def)
  done

lemma get_depends_leaf:
  assumes "n \<in> set allowed_computes"
    and "n \<notin> {''gb_energy'', ''energy_per_atom'', ''gamma_surface_info'', ''master_gamma'', ''energy'', ''atoms_gb_dist_change''}"
  shows "get_depends pv n inc_id inc_val kw = Inr ([Fresh (set_vals inc_val (base_defn n inc_id))], pv)"
  apply (subst get_depends.simps)
  using assms
  apply (simp add: vals_loop_eq touched_def
      finish_def dict_from_list_def base_defn_def Let_def)
  done

lemma py_eq_PStr: "py_eq w (PStr m) = (w = PStr m)"
  by (cases w) auto

lemma dict_matchesD:
  "dict_matches el d \<Longrightarrow> map_of d k = Some (PStr m) \<Longrightarrow> map_of el k = Some (PStr m)"
proof -
  assume m: "dict_matches el d" and "map_of d k = Some (PStr m)"
  then have "(k, PStr m) \<in> set d" by (simp add: map_of_SomeD)
  with m have "case map_of el k of None \<Rightarrow> False | Some w \<Rightarrow> py_eq w (PStr m)"
    by (auto simp: dict_matches_def list_all_iff)
  then show ?thesis by (auto simp: py_eq_PStr split: option.splits)
qed

lemma py_item_simps [simp]:
  "py_item [] k = Inl KeyError"
  "py_item ((k', v) # d) k = (if k' = k then Inr v else py_item d k)"
  by (simp_all add: py_item_def)

lemma py_get_simps [simp]:
  "py_get [] k = PNone"
  "py_get ((k', v) # d) k = (if k' = k then v else py_get d k)"
  by (simp_all add: py_get_def)

lemma map_of_set_vals_other: "k \<noteq> ''vals'' \<Longrightarrow> map_of (set_vals b v) k = map_of v k"
  by (simp add: set_vals_def update_conv' AList.delete_conv')

lemma name_base_defn: "map_of (base_defn n i) ''name'' = Some (PStr n)"
  by (simp add: base_defn_def)

lemma name_energy_defn: "map_of (energy_defn i es os) ''name'' = Some (PStr ''energy'')"
  by (simp add: energy_defn_def base_defn_def)

lemma name_gb_energy_defn: "map_of (gb_energy_defn n i es os si u) ''name'' = Some (PStr n)"
  by (simp add: gb_energy_defn_def base_defn_def)

lemma name_info_defn: "map_of (info_defn i x) ''name'' = Some (PStr ''gamma_surface_info'')"
  by (simp add: info_defn_def base_defn_def)

lemma pv_ok_name: "pv_ok pv \<Longrightarrow> map_of (pv k) ''name'' = map_of (PREDEFINED_VARS k) ''name''"
proof -
  assume "pv_ok pv"
  then have "AList.delete ''vals'' (pv k) = PREDEFINED_VARS k" by (simp add: pv_ok_iff)
  then have "map_of (AList.delete ''vals'' (pv k)) ''name'' = map_of (PREDEFINED_VARS k) ''name''"
    by simp
  then show ?thesis by (simp add: AList.delete_conv')
qed

lemma gb_d_eq:
  "AList.update ''unit'' u (AList.update ''series_id'' si (AList.update ''opt_step'' os
     (AList.update ''energy_src'' es
        (if inc_id then AList.update ''id'' (PStr n) [(''type'', PStr ''compute''), (''name'', PStr n)]
         else [(''type'', PStr ''compute''), (''name'', PStr n)])))) =
   gb_energy_defn n inc_id es os si u"
  by (simp add: gb_energy_defn_def base_defn_def)

lemma get_depends_gb_energy:
  assumes "pv_ok pv"
  shows "get_depends pv ''gb_energy'' inc_id inc_val kw =
     bindE (py_item kw ''energy_src'') (\<lambda>es.
     bindE (py_item kw ''opt_step'') (\<lambda>os.
     bindE (py_item kw ''series_id'') (\<lambda>si.
     bindE (py_item kw ''unit'') (\<lambda>u.
       Inr ([Fresh (set_vals inc_val (energy_defn inc_id es os)),
             Fresh (set_vals inc_val (base_defn ''num_atoms'' inc_id)),
             Predefined Key_gb_area, Predefined Key_sup_type,
             Fresh (set_vals inc_val (gb_energy_defn ''gb_energy'' inc_id es os si u))],
            pv(Key_gb_area := set_vals inc_val (pv Key_gb_area),
               Key_sup_type := set_vals inc_val (pv Key_sup_type)))))))"
proof -
  have nm: "dict_from_list
          [set_vals inc_val (energy_defn inc_id es os),
           set_vals inc_val (base_defn ''num_atoms'' inc_id), pv Key_gb_area, pv Key_sup_type]
          (gb_energy_defn ''gb_energy'' inc_id es os si u) = None" for es os si u
    using pv_ok_name[OF assms]
    by (auto simp: dict_from_list_def map_of_set_vals_other name_base_defn name_energy_defn
        dest!: dict_matchesD[where k="''name''", OF _ name_gb_energy_defn])
  show ?thesis
  proof (cases "py_item kw ''energy_src''")
    case Inl
    then show ?thesis
      by (subst get_depends.simps) (simp add: allowed_simp)
  next
    case es: (Inr es)
    show ?thesis
    proof (cases "py_item kw ''opt_step''")
      case Inl
      with es show ?thesis
        by (subst get_depends.simps) (simp add: allowed_simp)
    next
      case os: (Inr os)
      show ?thesis
      proof (cases "py_item kw ''series_id''")
        case Inl
        with es os show ?thesis
          by (subst get_depends.simps) (simp add: allowed_simp)
      next
        case si: (Inr si)
        show ?thesis
        proof (cases "py_item kw ''unit''")
          case Inl
          with es os si show ?thesis
            by (subst get_depends.simps) (simp add: allowed_simp)
        next
          case u: (Inr u)
          show ?thesis
            apply (subst get_depends.simps)
            apply (simp add: allowed_simp Let_def gb_d_eq get_depends_energy es os si u
                get_depends_leaf finish_def nm vals_loop_eq set_vals_idem)
            apply (auto simp: touched_def fun_eq_iff)
            done
        qed
      qed
    qed
  qed
qed

lemma nu_bind:
  "m \<noteq> Inl (ValueError UnknownCompute) \<Longrightarrow> (\<And>x. f x \<noteq> Inl (ValueError UnknownCompute))
     \<Longrightarrow> bindE m f \<noteq> Inl (ValueError UnknownCompute)"
  by (cases m) simp_all

lemma nu_item: "py_item kw k \<noteq> Inl (ValueError UnknownCompute)"
  by (simp add: py_item_def split: option.splits)

lemma nu_energy: "get_depends pv ''energy'' i v kw \<noteq> Inl (ValueError UnknownCompute)"
  by (simp add: get_depends_energy nu_bind nu_item)

lemma nu_leaf:
  assumes "n \<in> set allowed_computes"
    and "n \<notin> {''gb_energy'', ''energy_per_atom'', ''gamma_surface_info'', ''master_gamma'', ''energy'', ''atoms_gb_dist_change''}"
  shows "get_depends pv n i v kw \<noteq> Inl (ValueError UnknownCompute)"
  by (simp add: get_depends_leaf[OF assms])

lemma nu_info: "get_depends pv ''gamma_surface_info'' i v kw \<noteq> Inl (ValueError UnknownCompute)"
  by (cases i; subst get_depends.simps; simp add: allowed_simp Let_def; intro nu_bind nu_item; simp)

lemma nu_dist_change: "get_depends pv ''atoms_gb_dist_change'' i v kw \<noteq> Inl (ValueError UnknownCompute)"
  by (subst get_depends.simps) (simp add: allowed_simp Let_def)

lemma nu_pair:
  "(\<And>a b. f a b \<noteq> Inl (ValueError UnknownCompute)) \<Longrightarrow> (case x of (a, b) \<Rightarrow> f a b) \<noteq> Inl (ValueError UnknownCompute)"
  by (cases x) simp

lemma nu_num_atoms: "get_depends pv ''num_atoms'' i v kw \<noteq> Inl (ValueError UnknownCompute)"
  by (rule nu_leaf) (simp_all add: allowed_simp)

lemma nu_gb_energy: "get_depends pv ''gb_energy'' i v kw \<noteq> Inl (ValueError UnknownCompute)"
  by (cases i; subst get_depends.simps; simp add: allowed_simp Let_def;
      intro nu_bind nu_item nu_energy nu_num_atoms nu_pair; simp)

lemma nu_energy_per_atom: "get_depends pv ''energy_per_atom'' i v kw \<noteq> Inl (ValueError UnknownCompute)"
  by (cases i; subst get_depends.simps; simp add: allowed_simp Let_def;
      intro nu_bind nu_item nu_energy nu_num_atoms nu_pair; simp)

lemma nu_master_gamma: "get_depends pv ''master_gamma'' i v kw \<noteq> Inl (ValueError UnknownCompute)"
  by (cases i; subst get_depends.simps; simp add: allowed_simp Let_def;
      intro nu_bind nu_item nu_gb_energy nu_info nu_pair; simp)

text \<open>
  Claim C5. Dependency resolution fails with \<^verbatim>\<open>UnknownCompute\<close> exactly for the compute
  names outside the registry, the union of the names of the single-simulation and of the
  multi-simulation computes: for a name outside it this is the result whatever the other
  arguments are, and for a registered name it is never the result (a missing parameter of
  a registered compute is a \<^verbatim>\<open>KeyError\<close>).
\<close>

theorem get_depends_unknown_compute:
  "get_depends pv compute_name inc_id inc_val kwargs = Inl (ValueError UnknownCompute) \<longleftrightarrow>
     compute_name \<notin> set SINGLE_COMPUTE_LOOKUP_keys \<union> set MULTI_COMPUTE_LOOKUP_keys"
proof (cases "compute_name \<in> set allowed_computes")
  case False
  then show ?thesis
    by (subst get_depends.simps) (simp add: allowed_computes_def)
next
  case True
  have "get_depends pv compute_name inc_id inc_val kwargs \<noteq> Inl (ValueError UnknownCompute)"
  proof (cases "compute_name \<in> {''gb_energy'', ''energy_per_atom'', ''gamma_surface_info'', ''master_gamma'', ''energy'', ''atoms_gb_dist_change''}")
    case False
    with True show ?thesis by (rule nu_leaf)
  next
    case True
    then show ?thesis
      using nu_gb_energy nu_energy_per_atom nu_info nu_master_gamma nu_energy nu_dist_change
      by auto
  qed
  with True show ?thesis by (simp add: allowed_computes_def)
qed

theorem get_depends_unknown_compute_witness: "get_depends PREDEFINED_VARS ''gb_volume'' True True [] = Inl (ValueError UnknownCompute) \<and>
   get_depends PREDEFINED_VARS ''master_gamma'' True True [] \<noteq> Inl (ValueError UnknownCompute)"
  using get_depends_unknown_compute[of PREDEFINED_VARS "''gb_volume''" True True "[]"]
    get_depends_unknown_compute[of PREDEFINED_VARS "''master_gamma''" True True "[]"]
  by (simp add: SINGLE_COMPUTE_LOOKUP_keys_def MULTI_COMPUTE_LOOKUP_keys_def)

lemma pv_ok_set_vals:
  "AList.delete ''vals'' v = p \<and> map_of v ''vals'' \<noteq> Some PNone \<Longrightarrow>
   AList.delete ''vals'' (set_vals b v) = p \<and> map_of (set_vals b v) ''vals'' \<noteq> Some PNone"
  by (cases b) (auto simp: delete_set_vals set_vals_True_vals set_vals_False_vals
      split: option.splits pyval.splits)

lemma pv_ok_touched: "pv_ok pv \<Longrightarrow> pv_ok (touched b out pv)"
  unfolding pv_ok_iff touched_def using pv_ok_set_vals by auto

lemma Predefined_touch: "Predefined k \<in> touch b ` set out \<longleftrightarrow> Predefined k \<in> set out"
proof (induction out)
  case Nil
  show ?case by simp
next
  case (Cons x out)
  then show ?case by (cases x) auto
qed

lemma Fresh_touch:
  "Fresh d \<in> touch b ` set out \<longleftrightarrow> (\<exists>d'. Fresh d' \<in> set out \<and> d = set_vals b d')"
proof (induction out)
  case Nil
  show ?case by simp
next
  case (Cons x out)
  then show ?case by (cases x) auto
qed

lemma touched_compose:
  assumes "pv_ok pv" "\<forall>k. Predefined k \<in> set O1 \<longrightarrow> Predefined k \<in> set O2" "b' = True \<or> b' = b"
  shows "touched b O2 (touched b' O1 pv) = touched b O2 pv"
proof
  fix k
  have nn: "map_of (pv k) ''vals'' \<noteq> Some PNone" using assms(1) by (simp add: pv_ok_iff)
  show "touched b O2 (touched b' O1 pv) k = touched b O2 pv k"
    using assms(2,3) nn by (auto simp: touched_def set_vals_idem set_vals_after_True)
qed

lemma touched_append:
  "touched b O2 (touched b O1 pv) = touched b (O1 @ O2) pv"
  by (auto simp: touched_def fun_eq_iff set_vals_idem)

lemma set_vals_fresh:
  "map_of d ''vals'' = None \<or> map_of d ''vals'' = Some (PList []) \<Longrightarrow>
   map_of (set_vals b d) ''vals'' = (if b then Some (PList []) else None)"
  by (cases b) (auto simp: set_vals_True_vals set_vals_False_vals)

lemma finish_res_ok:
  assumes "pv_ok pv0"
    and "pv1 = touched b' O1 pv0"
    and "\<forall>k. Predefined k \<in> set O1 \<longrightarrow> Predefined k \<in> set O2"
    and "b' = True \<or> b' = b"
    and "\<forall>d. Fresh d \<in> set O2 \<longrightarrow> map_of d ''vals'' = None \<or> map_of d ''vals'' = Some (PList [])"
    and "map_of d ''vals'' = None"
  shows "res_ok b pv0 (finish pv1 b O2 d)"
proof -
  define O3 where "O3 = (if dict_from_list (map (deref pv1) O2) d = None then O2 @ [Fresh d] else O2)"
  have fin: "finish pv1 b O2 d = (map (touch b) O3, touched b O3 pv1)"
    by (simp add: finish_def O3_def vals_loop_eq)
  have sub: "\<forall>k. Predefined k \<in> set O1 \<longrightarrow> Predefined k \<in> set O3"
    using assms(3) by (auto simp: O3_def)
  have fr: "\<forall>d. Fresh d \<in> set O3 \<longrightarrow> map_of d ''vals'' = None \<or> map_of d ''vals'' = Some (PList [])"
    using assms(5,6) by (auto simp: O3_def)
  have "touched b O3 pv1 = touched b O3 pv0"
    unfolding assms(2) by (rule touched_compose[OF assms(1) sub assms(4)])
  also have "\<dots> = touched b (map (touch b) O3) pv0"
    by (simp add: touched_def Predefined_touch)
  finally have 1: "touched b O3 pv1 = touched b (map (touch b) O3) pv0" .
  have 2: "map_of e ''vals'' = (if b then Some (PList []) else None)"
    if "Fresh e \<in> set (map (touch b) O3)" for e
  proof -
    from that obtain d' where "Fresh d' \<in> set O3" "e = set_vals b d'"
      by (auto simp: Fresh_touch)
    with fr show ?thesis using set_vals_fresh[of d' b] by blast
  qed
  show ?thesis unfolding fin res_ok_def using 1 2 by simp
qed

lemma bindE_Inr_iff: "bindE m f = Inr y \<longleftrightarrow> (\<exists>x. m = Inr x \<and> f x = Inr y)"
  by (cases m) auto

lemma no_vals_base: "map_of (base_defn n i) ''vals'' = None"
  by (simp add: base_defn_def)

lemma no_vals_energy: "map_of (energy_defn i es os) ''vals'' = None"
  by (simp add: energy_defn_def base_defn_def)

lemma no_vals_gb_energy: "map_of (gb_energy_defn n i es os si u) ''vals'' = None"
  by (simp add: gb_energy_defn_def base_defn_def)

lemma no_vals_info: "map_of (info_defn i x) ''vals'' = None"
  by (simp add: info_defn_def base_defn_def)

lemma no_vals_series: "Fresh d \<in> set (series_idx_defs i) \<Longrightarrow> map_of d ''vals'' = None"
  by (cases i) (auto simp: series_idx_defs_def)

lemma no_predefined_series: "Predefined k \<notin> set (series_idx_defs i)"
  by (auto simp: series_idx_defs_def Let_def)

lemma touched_Nil: "touched b [] pv = pv"
  by (simp add: touched_def)

lemma info_d_eq:
  "AList.update ''info_name'' x
     (if inc_id then AList.update ''id'' (PStr ''gamma_surface_info'')
                      [(''type'', PStr ''compute''), (''name'', PStr ''gamma_surface_info'')]
      else [(''type'', PStr ''compute''), (''name'', PStr ''gamma_surface_info'')]) =
   info_defn inc_id x"
  by (simp add: info_defn_def base_defn_def)

lemma base_d_eq:
  "(if inc_id then AList.update ''id'' (PStr n) [(''type'', PStr ''compute''), (''name'', PStr n)]
    else [(''type'', PStr ''compute''), (''name'', PStr n)]) = base_defn n inc_id"
  by (simp add: base_defn_def)

lemma epa_d_eq:
  "AList.update ''opt_step'' os (AList.update ''energy_src'' es
     (if inc_id then AList.update ''id'' (PStr n) [(''type'', PStr ''compute''), (''name'', PStr n)]
      else [(''type'', PStr ''compute''), (''name'', PStr n)])) =
   base_defn n inc_id @ [(''energy_src'', es), (''opt_step'', os)]"
  by (simp add: base_defn_def)

lemma res_ok_leaf:
  assumes "n \<in> set allowed_computes"
    and "n \<notin> {''gb_energy'', ''energy_per_atom'', ''gamma_surface_info'', ''master_gamma'', ''energy'', ''atoms_gb_dist_change''}"
    and "get_depends pv n i b kw = Inr r"
  shows "res_ok b pv r"
  using assms(3) unfolding get_depends_leaf[OF assms(1,2)]
  by (auto simp: res_ok_def touched_def set_vals_fresh no_vals_base)

lemma res_ok_energy:
  assumes "get_depends pv ''energy'' i b kw = Inr r"
  shows "res_ok b pv r"
  using assms unfolding get_depends_energy
  by (auto simp: bindE_Inr_iff res_ok_def touched_def set_vals_fresh no_vals_energy)

lemma res_ok_gb_energy:
  assumes "pv_ok pv" "get_depends pv ''gb_energy'' i b kw = Inr r"
  shows "res_ok b pv r"
  using assms(2) unfolding get_depends_gb_energy[OF assms(1)]
  by (auto simp: bindE_Inr_iff res_ok_def touched_def set_vals_fresh no_vals_energy
      no_vals_base no_vals_gb_energy fun_eq_iff)

lemma res_ok_info:
  assumes "pv_ok pv" "get_depends pv ''gamma_surface_info'' i b kw = Inr r"
  shows "res_ok b pv r"
proof -
  from assms(2) obtain x where r: "r = finish pv b (series_idx_defs i) (info_defn i x)"
    by (subst (asm) get_depends.simps)
      (auto simp: allowed_simp Let_def bindE_Inr_iff info_d_eq)
  show ?thesis unfolding r
    by (rule finish_res_ok[OF assms(1), where b'=b and ?O1.0="[]"])
      (auto simp: touched_Nil no_vals_series no_vals_info)
qed

lemma res_ok_dist_change:
  assumes "pv_ok pv" "get_depends pv ''atoms_gb_dist_change'' i b kw = Inr r"
  shows "res_ok b pv r"
proof -
  from assms(2) have r: "r = finish pv b [Predefined Key_gb_dist_initial,
      Predefined Key_gb_dist_final, Predefined Key_sup_type] (base_defn ''atoms_gb_dist_change'' i)"
    by (subst (asm) get_depends.simps)
      (auto simp: allowed_simp Let_def base_d_eq)
  show ?thesis unfolding r
    by (rule finish_res_ok[OF assms(1), where b'=b and ?O1.0="[]"])
      (auto simp: touched_Nil no_vals_base)
qed

lemma res_ok_energy_per_atom:
  assumes "pv_ok pv" "get_depends pv ''energy_per_atom'' i b kw = Inr r"
  shows "res_ok b pv r"
proof -
  from assms(2) obtain es os where r: "r = finish pv b
      ([Fresh (set_vals b (base_defn ''num_atoms'' i))] @
       [Fresh (set_vals b (energy_defn i es os))])
      (base_defn ''energy_per_atom'' i @ [(''energy_src'', es), (''opt_step'', os)])"
    by (subst (asm) get_depends.simps)
      (auto simp: allowed_simp Let_def bindE_Inr_iff epa_d_eq get_depends_leaf get_depends_energy)
  show ?thesis unfolding r
    by (rule finish_res_ok[OF assms(1), where b'=b and ?O1.0="[]"])
      (auto simp: touched_Nil no_vals_base no_vals_energy set_vals_fresh)
qed

lemma res_ok_master_gamma:
  assumes "pv_ok pv" "get_depends pv ''master_gamma'' i b kw = Inr r"
  shows "res_ok b pv r"
proof -
  from assms(2) obtain es os si u k1 k2 k3 k4 k5 k6 k7 k8 o1 o2 o3 o4 o5 o6 o7 o8
      pv1 pv2 pv3 pv4 pv5 pv6 pv7 pv8 where
    g1: "get_depends pv ''gb_energy'' i True k1 = Inr (o1, pv1)" and
    g2: "get_depends pv1 ''gamma_surface_info'' i True k2 = Inr (o2, pv2)" and
    g3: "get_depends pv2 ''gamma_surface_info'' i True k3 = Inr (o3, pv3)" and
    g4: "get_depends pv3 ''gamma_surface_info'' i True k4 = Inr (o4, pv4)" and
    g5: "get_depends pv4 ''gamma_surface_info'' i True k5 = Inr (o5, pv5)" and
    g6: "get_depends pv5 ''gamma_surface_info'' i True k6 = Inr (o6, pv6)" and
    g7: "get_depends pv6 ''gamma_surface_info'' i True k7 = Inr (o7, pv7)" and
    g8: "get_depends pv7 ''gamma_surface_info'' i True k8 = Inr (o8, pv8)" and
    r: "r = finish pv8 b (o1 @ o2 @ o3 @ o4 @ o5 @ o6 @ o7 @ o8 @ [Predefined Key_gb_boundary_vac])
              (gb_energy_defn ''master_gamma'' i es os si u)"
    by (subst (asm) get_depends.simps)
      (auto simp: allowed_simp Let_def bindE_Inr_iff gb_d_eq)
  have r1: "res_ok True pv (o1, pv1)" by (rule res_ok_gb_energy[OF assms(1) g1])
  then have p1: "pv_ok pv1" using assms(1) by (simp add: res_ok_def pv_ok_touched)
  have r2: "res_ok True pv1 (o2, pv2)" by (rule res_ok_info[OF p1 g2])
  then have p2: "pv_ok pv2" using p1 by (simp add: res_ok_def pv_ok_touched)
  have r3: "res_ok True pv2 (o3, pv3)" by (rule res_ok_info[OF p2 g3])
  then have p3: "pv_ok pv3" using p2 by (simp add: res_ok_def pv_ok_touched)
  have r4: "res_ok True pv3 (o4, pv4)" by (rule res_ok_info[OF p3 g4])
  then have p4: "pv_ok pv4" using p3 by (simp add: res_ok_def pv_ok_touched)
  have r5: "res_ok True pv4 (o5, pv5)" by (rule res_ok_info[OF p4 g5])
  then have p5: "pv_ok pv5" using p4 by (simp add: res_ok_def pv_ok_touched)
  have r6: "res_ok True pv5 (o6, pv6)" by (rule res_ok_info[OF p5 g6])
  then have p6: "pv_ok pv6" using p5 by (simp add: res_ok_def pv_ok_touched)
  have r7: "res_ok True pv6 (o7, pv7)" by (rule res_ok_info[OF p6 g7])
  then have p7: "pv_ok pv7" using p6 by (simp add: res_ok_def pv_ok_touched)
  have r8: "res_ok True pv7 (o8, pv8)" by (rule res_ok_info[OF p7 g8])
  have pv8: "pv8 = touched True (o1 @ o2 @ o3 @ o4 @ o5 @ o6 @ o7 @ o8) pv"
    using r1 r2 r3 r4 r5 r6 r7 r8 by (simp add: res_ok_def touched_append)
  have fr: "\<forall>d. Fresh d \<in> set (o1 @ o2 @ o3 @ o4 @ o5 @ o6 @ o7 @ o8 @ [Predefined Key_gb_boundary_vac])
      \<longrightarrow> map_of d ''vals'' = None \<or> map_of d ''vals'' = Some (PList [])"
    using r1 r2 r3 r4 r5 r6 r7 r8 by (auto simp: res_ok_def)
  show ?thesis unfolding r
    by (rule finish_res_ok[OF assms(1) pv8 _ _ fr]) (auto simp: no_vals_gb_energy)
qed

lemma res_ok_get_depends:
  assumes "pv_ok pv" "get_depends pv n i b kw = Inr r"
  shows "res_ok b pv r"
proof -
  have al: "n \<in> set allowed_computes"
  proof (rule ccontr)
    assume "n \<notin> set allowed_computes"
    then have "get_depends pv n i b kw = Inl (ValueError UnknownCompute)"
      by (subst get_depends.simps) simp
    with assms(2) show False by simp
  qed
  show ?thesis
  proof (cases "n \<in> {''gb_energy'', ''energy_per_atom'', ''gamma_surface_info'', ''master_gamma'', ''energy'', ''atoms_gb_dist_change''}")
    case False
    show ?thesis by (rule res_ok_leaf[OF al False assms(2)])
  next
    case True
    then have "n = ''gb_energy'' \<or> n = ''energy_per_atom'' \<or> n = ''gamma_surface_info''
      \<or> n = ''master_gamma'' \<or> n = ''energy'' \<or> n = ''atoms_gb_dist_change''"
      by (simp only: insert_iff empty_iff simp_thms)
    then show ?thesis
    proof (elim disjE)
      assume 1: "n = ''gb_energy''"
      show ?thesis using assms(2) unfolding 1 by (rule res_ok_gb_energy[OF assms(1)])
    next
      assume 1: "n = ''energy_per_atom''"
      show ?thesis using assms(2) unfolding 1 by (rule res_ok_energy_per_atom[OF assms(1)])
    next
      assume 1: "n = ''gamma_surface_info''"
      show ?thesis using assms(2) unfolding 1 by (rule res_ok_info[OF assms(1)])
    next
      assume 1: "n = ''master_gamma''"
      show ?thesis using assms(2) unfolding 1 by (rule res_ok_master_gamma[OF assms(1)])
    next
      assume 1: "n = ''energy''"
      show ?thesis using assms(2) unfolding 1 by (rule res_ok_energy)
    next
      assume 1: "n = ''atoms_gb_dist_change''"
      show ?thesis using assms(2) unfolding 1 by (rule res_ok_dist_change[OF assms(1)])
    qed
  qed
qed

text \<open>
  Claim C3. Let the shared dicts be as the module declares them, apart from \<^verbatim>\<open>vals\<close>
  entries that are sequences. For every compute name and parameter set for which
  resolution returns, every definition of the returned sequence, the prerequisites from
  nested calls included, carries \<^verbatim>\<open>vals\<close> when \<^verbatim>\<open>inc_val\<close> is true: the empty sequence for a
  dict that the call built and for a shared dict that had none, the sequence that was
  there for a shared dict that had one. When \<^verbatim>\<open>inc_val\<close> is false no definition of the
  returned sequence carries \<^verbatim>\<open>vals\<close>. The nested calls of \<^verbatim>\<open>master_gamma\<close> run with
  \<^verbatim>\<open>inc_val\<close> true whatever the caller asked; the loop of the outer call repairs it.
\<close>

theorem get_depends_vals:
  assumes "pv_ok pv"
    and "get_depends pv compute_name inc_id inc_val kwargs = Inr (out, pv')"
  shows "\<forall>v \<in> set out.
           map_of (deref pv' v) ''vals'' =
             (if inc_val then
                Some (case v of
                        Fresh d \<Rightarrow> PList []
                      | Predefined k \<Rightarrow>
                          (case map_of (pv k) ''vals'' of None \<Rightarrow> PList [] | Some w \<Rightarrow> w))
              else None)"
proof
  fix v assume v: "v \<in> set out"
  have r: "res_ok inc_val pv (out, pv')" by (rule res_ok_get_depends[OF assms])
  show "map_of (deref pv' v) ''vals'' =
             (if inc_val then
                Some (case v of
                        Fresh d \<Rightarrow> PList []
                      | Predefined k \<Rightarrow>
                          (case map_of (pv k) ''vals'' of None \<Rightarrow> PList [] | Some w \<Rightarrow> w))
              else None)"
  proof (cases v)
    case (Fresh d)
    with v r show ?thesis by (simp add: res_ok_def)
  next
    case (Predefined k)
    have nn: "map_of (pv k) ''vals'' \<noteq> Some PNone" using assms(1) by (simp add: pv_ok_iff)
    from Predefined v r have "pv' k = set_vals inc_val (pv k)"
      by (simp add: res_ok_def touched_def)
    with nn Predefined show ?thesis
      by (cases inc_val)
        (auto simp: set_vals_True_vals set_vals_False_vals split: option.splits pyval.splits)
  qed
qed

lemma py_item_Some: "map_of kw k = Some v \<Longrightarrow> py_item kw k = Inr v"
  by (simp add: py_item_def)

text \<open>
  Claim C1. For every parameter set with \<^verbatim>\<open>energy_src\<close>, \<^verbatim>\<open>opt_step\<close>, \<^verbatim>\<open>series_id\<close> and
  \<^verbatim>\<open>unit\<close>, resolving \<^verbatim>\<open>gb_energy\<close> returns five definitions: the definition of \<^verbatim>\<open>energy\<close>
  with the same \<^verbatim>\<open>energy_src\<close> and \<^verbatim>\<open>opt_step\<close>, the definition of \<^verbatim>\<open>num_atoms\<close>, the
  predefined \<^verbatim>\<open>gb_area\<close> and \<^verbatim>\<open>supercell_type\<close>, and last the definition of \<^verbatim>\<open>gb_energy\<close>
  itself, in that order. Leaving \<^verbatim>\<open>vals\<close> aside the five are distinct, so each occurs once.
\<close>

theorem gb_energy_resolution:
  assumes "pv_ok pv"
    and "map_of kwargs ''energy_src'' = Some energy_src"
    and "map_of kwargs ''opt_step'' = Some opt_step"
    and "map_of kwargs ''series_id'' = Some series_id"
    and "map_of kwargs ''unit'' = Some unit"
  shows "let e = energy_defn inc_id energy_src opt_step;
             n = base_defn ''num_atoms'' inc_id;
             g = gb_energy_defn ''gb_energy'' inc_id energy_src opt_step series_id unit;
             out = [Fresh (set_vals inc_val e), Fresh (set_vals inc_val n),
                    Predefined Key_gb_area, Predefined Key_sup_type,
                    Fresh (set_vals inc_val g)];
             pv' = pv(Key_gb_area := set_vals inc_val (pv Key_gb_area),
                      Key_sup_type := set_vals inc_val (pv Key_sup_type))
         in get_depends pv ''gb_energy'' inc_id inc_val kwargs = Inr (out, pv') \<and>
            map (\<lambda>v. AList.delete ''vals'' (deref pv' v)) out =
              [e, n, PREDEFINED_VARS Key_gb_area, PREDEFINED_VARS Key_sup_type, g] \<and>
            distinct [e, n, PREDEFINED_VARS Key_gb_area, PREDEFINED_VARS Key_sup_type, g] \<and>
            py_get e ''energy_src'' = energy_src \<and>
            py_get e ''opt_step'' = opt_step"
proof -
  let ?e = "energy_defn inc_id energy_src opt_step"
  let ?n = "base_defn ''num_atoms'' inc_id"
  let ?g = "gb_energy_defn ''gb_energy'' inc_id energy_src opt_step series_id unit"
  let ?out = "[Fresh (set_vals inc_val ?e), Fresh (set_vals inc_val ?n),
             Predefined Key_gb_area, Predefined Key_sup_type, Fresh (set_vals inc_val ?g)]"
  let ?pv = "pv(Key_gb_area := set_vals inc_val (pv Key_gb_area),
               Key_sup_type := set_vals inc_val (pv Key_sup_type))"
  have 1: "get_depends pv ''gb_energy'' inc_id inc_val kwargs = Inr (?out, ?pv)"
    by (simp add: get_depends_gb_energy[OF assms(1)] py_item_Some assms(2-5))
  have d: "AList.delete ''vals'' (pv k) = PREDEFINED_VARS k" for k
    using assms(1) by (simp add: pv_ok_iff)
  have 3: "map (\<lambda>v. AList.delete ''vals'' (deref ?pv v)) ?out =
             [?e, ?n, PREDEFINED_VARS Key_gb_area, PREDEFINED_VARS Key_sup_type, ?g]"
    by (simp add: delete_set_vals d delete_absent no_vals_energy no_vals_base no_vals_gb_energy)
  have 4: "distinct [?e, ?n, PREDEFINED_VARS Key_gb_area, PREDEFINED_VARS Key_sup_type, ?g]"
    by (simp add: energy_defn_def base_defn_def gb_energy_defn_def)
  have 5: "py_get ?e ''energy_src'' = energy_src" "py_get ?e ''opt_step'' = opt_step"
    by (simp_all add: energy_defn_def base_defn_def py_get_def)
  show ?thesis
    unfolding Let_def by (intro conjI 1 3 4 5)
qed

theorem gb_energy_resolution_witness:
  "pv_ok PREDEFINED_VARS \<and>
   get_depends PREDEFINED_VARS ''gb_energy'' True True
     [(''energy_src'', PStr ''final_energy''), (''opt_step'', PNone),
      (''series_id'', PList [PStr ''gamma'']), (''unit'', PStr ''J/m^2'')] =
   Inr ([Fresh [(''type'', PStr ''compute''), (''name'', PStr ''energy''),
                (''id'', PStr ''energy''), (''energy_src'', PStr ''final_energy''),
                (''vals'', PList [])],
         Fresh [(''type'', PStr ''compute''), (''name'', PStr ''num_atoms''),
                (''id'', PStr ''num_atoms''), (''vals'', PList [])],
         Predefined Key_gb_area, Predefined Key_sup_type,
         Fresh [(''type'', PStr ''compute''), (''name'', PStr ''gb_energy''),
                (''id'', PStr ''gb_energy''), (''energy_src'', PStr ''final_energy''),
                (''opt_step'', PNone), (''series_id'', PList [PStr ''gamma'']),
                (''unit'', PStr ''J/m^2''), (''vals'', PList [])]],
        PREDEFINED_VARS
          (Key_gb_area := PREDEFINED_VARS Key_gb_area @ [(''vals'', PList [])],
           Key_sup_type := PREDEFINED_VARS Key_sup_type @ [(''vals'', PList [])]))"
proof -
  have ok: "pv_ok PREDEFINED_VARS"
    by (simp add: pv_ok_def predefined_keys_def)
  show ?thesis
    using ok gb_energy_resolution[OF ok, of
        "[(''energy_src'', PStr ''final_energy''), (''opt_step'', PNone),
          (''series_id'', PList [PStr ''gamma'']), (''unit'', PStr ''J/m^2'')]"
        "PStr ''final_energy''" PNone "PList [PStr ''gamma'']" "PStr ''J/m^2''" True True]
    by (simp add: Let_def energy_defn_def base_defn_def gb_energy_defn_def set_vals_def)
qed

theorem get_depends_vals_witness:
  "pv_ok PREDEFINED_VARS \<and>
   get_depends PREDEFINED_VARS ''atoms_gb_dist_change'' False True [] =
     Inr ([Predefined Key_gb_dist_initial, Predefined Key_gb_dist_final, Predefined Key_sup_type,
           Fresh [(''type'', PStr ''compute''), (''name'', PStr ''atoms_gb_dist_change''),
                  (''vals'', PList [])]],
          PREDEFINED_VARS
            (Key_gb_dist_initial := PREDEFINED_VARS Key_gb_dist_initial @ [(''vals'', PList [])],
             Key_gb_dist_final := PREDEFINED_VARS Key_gb_dist_final @ [(''vals'', PList [])],
             Key_sup_type := PREDEFINED_VARS Key_sup_type @ [(''vals'', PList [])])) \<and>
   list_all (\<lambda>v.
      map_of (deref (PREDEFINED_VARS
            (Key_gb_dist_initial := PREDEFINED_VARS Key_gb_dist_initial @ [(''vals'', PList [])],
             Key_gb_dist_final := PREDEFINED_VARS Key_gb_dist_final @ [(''vals'', PList [])],
             Key_sup_type := PREDEFINED_VARS Key_sup_type @ [(''vals'', PList [])])) v) ''vals'' =
        Some (PList []))
     [Predefined Key_gb_dist_initial, Predefined Key_gb_dist_final, Predefined Key_sup_type,
      Fresh [(''type'', PStr ''compute''), (''name'', PStr ''atoms_gb_dist_change''),
             (''vals'', PList [])]]"
proof -
  have ok: "pv_ok PREDEFINED_VARS"
    by (simp add: pv_ok_def predefined_keys_def)
  have g: "get_depends PREDEFINED_VARS ''atoms_gb_dist_change'' False True [] =
     Inr ([Predefined Key_gb_dist_initial, Predefined Key_gb_dist_final, Predefined Key_sup_type,
           Fresh [(''type'', PStr ''compute''), (''name'', PStr ''atoms_gb_dist_change''),
                  (''vals'', PList [])]],
          PREDEFINED_VARS
            (Key_gb_dist_initial := PREDEFINED_VARS Key_gb_dist_initial @ [(''vals'', PList [])],
             Key_gb_dist_final := PREDEFINED_VARS Key_gb_dist_final @ [(''vals'', PList [])],
             Key_sup_type := PREDEFINED_VARS Key_sup_type @ [(''vals'', PList [])]))"
    by (subst get_depends.simps)
      (simp add: allowed_simp Let_def finish_def dict_from_list_def dict_matches_def
        set_vals_def)
  show ?thesis
    using ok g get_depends_vals[OF ok g] by simp
qed

section \<open>Properties of the single-simulation computes\<close>





lemma set_vals_False_no_vals: "map_of d ''vals'' = None \<Longrightarrow> set_vals False d = d"
  by (simp add: set_vals_def py_get_def)





section \<open>Properties of the aggregate compute\<close>

lemma py_index_nat: "i < length xs \<Longrightarrow> py_index xs (int i) = Inr (xs ! i)"
  by (simp add: py_index_def)

lemma py_index_nat_Inr: "py_index xs (int i) = Inr x \<Longrightarrow> i < length xs \<and> x = xs ! i"
  by (auto simp: py_index_def split: if_splits)

lemma set_gb_idx_of:
  "set (gb_idx_of st) = {i. i < length st \<and> py_eq (st ! i) (PStr ''bicrystal'')}"
  by (force simp: gb_idx_of_def in_set_enumerate_eq)

lemma set_bulk_idx_of:
  "set (bulk_idx_of st) = {j. j < length st \<and> py_eq (st ! j) (PStr ''bulk'')}"
  by (force simp: bulk_idx_of_def in_set_enumerate_eq py_eq_PStr)

lemma distinct_gb_idx_of: "distinct (gb_idx_of st)"
  by (simp add: gb_idx_of_def distinct_map_filter)

lemma sorted_bulk_idx_of: "sorted (bulk_idx_of st)"
  by (simp add: bulk_idx_of_def sorted_filter)

lemma bulk_loop_eval:
  assumes "gb_i < length srs"
    and "\<forall>b\<in>set bulk_idx. b < length srs"
    and "\<forall>b\<in>set bulk_idx. py_eq_list (srs ! gb_i) (srs ! b) \<longrightarrow>
           E_gb_of en na ar gb_i b = Inr (f b)"
  shows "bulk_loop en na ar srs gb_i bulk_idx E =
           Inr (case filter (\<lambda>b. py_eq_list (srs ! gb_i) (srs ! b)) bulk_idx of
                  [] \<Rightarrow> E
                | m # ms \<Rightarrow> Some (f (last (m # ms))))"
  using assms(2,3)
proof (induction bulk_idx arbitrary: E)
  case Nil
  show ?case by simp
next
  case (Cons b bs)
  show ?case
  proof (cases "py_eq_list (srs ! gb_i) (srs ! b)")
    case True
    with Cons.prems have e: "E_gb_of en na ar gb_i b = Inr (f b)" by simp
    have "bulk_loop en na ar srs gb_i (b # bs) E = bulk_loop en na ar srs gb_i bs (Some (f b))"
      using True e Cons.prems assms(1) by (simp add: py_index_nat)
    also have "\<dots> = Inr (case filter (\<lambda>b. py_eq_list (srs ! gb_i) (srs ! b)) bs of
                  [] \<Rightarrow> Some (f b)
                | m # ms \<Rightarrow> Some (f (last (m # ms))))"
      using Cons.prems by (intro Cons.IH) simp_all
    finally show ?thesis using True by (simp split: list.splits)
  next
    case False
    have "bulk_loop en na ar srs gb_i (b # bs) E = bulk_loop en na ar srs gb_i bs E"
      using False Cons.prems assms(1) by (simp add: py_index_nat)
    also have "\<dots> = Inr (case filter (\<lambda>b. py_eq_list (srs ! gb_i) (srs ! b)) bs of
                  [] \<Rightarrow> E
                | m # ms \<Rightarrow> Some (f (last (m # ms))))"
      using Cons.prems by (intro Cons.IH) simp_all
    finally show ?thesis using False by simp
  qed
qed

lemma bulk_loop_no_match:
  assumes "bulk_loop en na ar srs gb_i bulk_idx E0 = Inr E"
    and "\<forall>b\<in>set bulk_idx. \<not> py_eq_list (srs ! gb_i) (srs ! b)"
  shows "E = E0"
  using assms
proof (induction bulk_idx arbitrary: E0)
  case Nil
  then show ?case by simp
next
  case (Cons b bs)
  from Cons.prems(1) obtain sg sb where
    sg: "py_index srs (int gb_i) = Inr sg" and sb: "py_index srs (int b) = Inr sb"
    by (auto simp: bindE_Inr_iff)
  from py_index_nat_Inr[OF sg] py_index_nat_Inr[OF sb] Cons.prems(2)
  have "\<not> py_eq_list sg sb" by simp
  with Cons.prems(1) sg sb have "bulk_loop en na ar srs gb_i bs E0 = Inr E" by simp
  with Cons.prems(2) show ?case by (intro Cons.IH) simp_all
qed

lemma gb_loop_unchanged:
  assumes "gb_loop en na ar srs unit bulk_idx gb_idx all = Inr res"
    and "\<forall>b\<in>set bulk_idx. \<not> py_eq_list (srs ! i) (srs ! b)"
  shows "length res = length all \<and> res ! i = all ! i"
  using assms
proof (induction gb_idx arbitrary: all)
  case Nil
  then show ?case by simp
next
  case (Cons g gs)
  from Cons.prems(1) obtain E where E: "bulk_loop en na ar srs g bulk_idx None = Inr E"
    by (auto simp: bindE_Inr_iff)
  show ?case
  proof (cases E)
    case None
    with Cons.prems E have "gb_loop en na ar srs unit bulk_idx gs all = Inr res" by simp
    with Cons.prems(2) show ?thesis by (intro Cons.IH) simp_all
  next
    case (Some e)
    have ne: "g \<noteq> i"
    proof
      assume "g = i"
      with E Cons.prems(2) have "E = None" using bulk_loop_no_match by blast
      with Some show False by simp
    qed
    define a' where "a' = all[g := PFloat (if py_eq unit (PStr ''J/m^2'') then e * 16.02176565 else e)]"
    from Cons.prems(1) E Some have "gb_loop en na ar srs unit bulk_idx gs a' = Inr res"
      by (simp add: Let_def a'_def split: if_splits)
    with Cons.prems(2) have "length res = length a' \<and> res ! i = a' ! i"
      by (intro Cons.IH) simp_all
    with ne show ?thesis by (simp add: a'_def)
  qed
qed

text \<open>
  Claim C7. When the loops of \<^verbatim>\<open>gb_energy\<close> return, every bicrystal simulation for which no
  bulk simulation has an equal tuple of series values holds \<^verbatim>\<open>None\<close> in the list of
  values: the list starts as \<^verbatim>\<open>None\<close> everywhere and only a bicrystal with a match is
  assigned.
\<close>

theorem gb_energy_unmatched_None:
  assumes "gb_energy_vals energy_v num_atoms area sup_type srs_vals unit num_sims = Inr all_E_gb"
    and "i < length sup_type"
    and "py_eq (sup_type ! i) (PStr ''bicrystal'')"
    and "\<forall>j<length sup_type. py_eq (sup_type ! j) (PStr ''bulk'') \<longrightarrow>
           \<not> py_eq_list (srs_vals ! i) (srs_vals ! j)"
    and "i < num_sims"
  shows "i < length all_E_gb \<and> all_E_gb ! i = PNone"
proof -
  have nm: "\<forall>b\<in>set (bulk_idx_of sup_type). \<not> py_eq_list (srs_vals ! i) (srs_vals ! b)"
    using assms(4) by (simp add: set_bulk_idx_of)
  from assms(1) nm have "length all_E_gb = length (replicate num_sims PNone) \<and>
      all_E_gb ! i = replicate num_sims PNone ! i"
    unfolding gb_energy_vals_def by (rule gb_loop_unchanged)
  with assms(5) show ?thesis by simp
qed

lemma E_gb_of_eval:
  assumes "i < length es" "j < length es" "i < length ns" "j < length ns" "i < length as"
    and "py_num (es ! i) = Some ei" "py_num (es ! j) = Some ej"
    and "py_num (ns ! i) = Some ni" "py_num (ns ! j) = Some nj"
    and "py_num (as ! i) = Some ai"
    and "nj \<noteq> 0" "ai \<noteq> 0"
  shows "E_gb_of (PList es) (PList ns) (PList as) i j = Inr ((ei - ni / nj * ej) / (2 * ai))"
  using assms
  by (simp add: E_gb_of_def py_subscript_def py_index_nat as_num_def py_truediv_def)

lemma gb_loop_eval:
  assumes "\<forall>g\<in>set gb_idx. bulk_loop en na ar srs g bulk_idx None = Inr (F g)"
    and "\<forall>g\<in>set gb_idx. g < length al"
  shows "gb_loop en na ar srs unit bulk_idx gb_idx al =
           Inr (fold (\<lambda>g a. case F g of
                               None \<Rightarrow> a
                             | Some e \<Rightarrow> a[g := PFloat (if py_eq unit (PStr ''J/m^2'')
                                                        then e * 16.02176565 else e)])
                  gb_idx al)"
  using assms
proof (induction gb_idx arbitrary: al)
  case Nil
  show ?case by simp
next
  case (Cons g gs)
  show ?case
  proof (cases "F g")
    case None
    with Cons.prems show ?thesis by (simp add: Cons.IH)
  next
    case (Some e)
    with Cons.prems show ?thesis by (simp add: Cons.IH Let_def)
  qed
qed

lemma fold_upd_length:
  "length (fold (\<lambda>g a. case F g of None \<Rightarrow> a | Some e \<Rightarrow> a[g := V e]) gs al) = length al"
proof (induction gs arbitrary: al)
  case Nil
  show ?case by simp
next
  case (Cons g gs)
  show ?case by (cases "F g") (simp_all add: Cons.IH)
qed

lemma fold_upd_nth:
  assumes "distinct gs" "i < length al"
  shows "fold (\<lambda>g a. case F g of None \<Rightarrow> a | Some e \<Rightarrow> a[g := V e]) gs al ! i =
           (if i \<in> set gs then (case F i of None \<Rightarrow> al ! i | Some e \<Rightarrow> V e) else al ! i)"
  using assms
proof (induction gs arbitrary: al)
  case Nil
  show ?case by simp
next
  case (Cons g gs)
  show ?case
  proof (cases "F g")
    case None
    with Cons.prems Cons.IH[of al] show ?thesis by auto
  next
    case (Some e)
    have ih: "fold (\<lambda>g a. case F g of None \<Rightarrow> a | Some e \<Rightarrow> a[g := V e]) gs (al[g := V e]) ! i =
      (if i \<in> set gs then (case F i of None \<Rightarrow> al[g := V e] ! i | Some e \<Rightarrow> V e)
       else al[g := V e] ! i)"
      using Cons.prems by (intro Cons.IH) simp_all
    show ?thesis
    proof (cases "i = g")
      case True
      with Cons.prems Some ih show ?thesis by simp
    next
      case False
      with Cons.prems Some ih show ?thesis by (simp split: option.splits)
    qed
  qed
qed

text \<open>
  Claim C2, as amended. Let the energies and atom counts be numbers, the areas of the
  bicrystals non-zero numbers and the atom counts of the bulk simulations non-zero. Then
  the loops of \<^verbatim>\<open>gb_energy\<close> return, and the value of a bicrystal simulation \<^verbatim>\<open>i\<close> that has
  a bulk simulation with an equal tuple of series values is computed against the \<^bold>\<open>last\<close>
  such bulk simulation \<^verbatim>\<open>j\<close>, as \<^verbatim>\<open>(E_i - (N_i / N_j) * E_j) / (2 * A_i)\<close>, times
  \<^verbatim>\<open>16.02176565\<close> exactly when the unit is \<^verbatim>\<open>J/m^2\<close>; every other value is \<^verbatim>\<open>None\<close>.
  (\<^const>\<open>bulk_idx_of\<close> lists the bulk simulations by increasing index.)
\<close>

theorem gb_energy_last_bulk:
  fixes E N A :: "nat \<Rightarrow> real"
  assumes "length es = n" "length ns = n" "length as = n"
    and "length sup_type = n" "length srs_vals = n"
    and "\<forall>i<n. py_num (es ! i) = Some (E i) \<and> py_num (ns ! i) = Some (N i)"
    and "\<forall>i<n. py_eq (sup_type ! i) (PStr ''bicrystal'') \<longrightarrow>
           py_num (as ! i) = Some (A i) \<and> A i \<noteq> 0"
    and "\<forall>j<n. py_eq (sup_type ! j) (PStr ''bulk'') \<longrightarrow> N j \<noteq> 0"
  shows "gb_energy_vals (PList es) (PList ns) (PList as) sup_type srs_vals unit n =
           Inr (map (\<lambda>i.
                  let ms = filter (\<lambda>j. py_eq_list (srs_vals ! i) (srs_vals ! j))
                             (bulk_idx_of sup_type)
                  in if py_eq (sup_type ! i) (PStr ''bicrystal'') \<and> ms \<noteq> [] then
                       PFloat ((if py_eq unit (PStr ''J/m^2'') then 16.02176565 else 1) *
                               ((E i - N i / N (last ms) * E (last ms)) / (2 * A i)))
                     else PNone)
                [0..<n])"
proof -
  let ?match = "\<lambda>i j. py_eq_list (srs_vals ! i) (srs_vals ! j)"
  let ?ms = "\<lambda>i. filter (?match i) (bulk_idx_of sup_type)"
  let ?f = "\<lambda>i j. (E i - N i / N j * E j) / (2 * A i)"
  let ?F = "\<lambda>i. case ?ms i of [] \<Rightarrow> None | m # ms \<Rightarrow> Some (?f i (last (m # ms)))"
  let ?V = "\<lambda>e. PFloat (if py_eq unit (PStr ''J/m^2'') then e * 16.02176565 else e)"
  let ?G = "\<lambda>i. let ms = ?ms i
                 in if py_eq (sup_type ! i) (PStr ''bicrystal'') \<and> ms \<noteq> [] then
                       PFloat ((if py_eq unit (PStr ''J/m^2'') then 16.02176565 else 1) *
                               ((E i - N i / N (last ms) * E (last ms)) / (2 * A i)))
                     else PNone"
  have bl: "bulk_loop (PList es) (PList ns) (PList as) srs_vals g (bulk_idx_of sup_type) None =
              Inr (?F g)"
    if g: "g \<in> set (gb_idx_of sup_type)" for g
  proof -
    from g have gn: "g < n" and gb: "py_eq (sup_type ! g) (PStr ''bicrystal'')"
      using assms(4) by (simp_all add: set_gb_idx_of)
    have "E_gb_of (PList es) (PList ns) (PList as) g b = Inr (?f g b)"
      if "b \<in> set (bulk_idx_of sup_type)" for b
    proof -
      from that have bn: "b < n" and bb: "py_eq (sup_type ! b) (PStr ''bulk'')"
        using assms(4) by (simp_all add: set_bulk_idx_of)
      show ?thesis
        using gn bn gb bb assms by (intro E_gb_of_eval) simp_all
    qed
    moreover have "\<forall>b\<in>set (bulk_idx_of sup_type). b < length srs_vals"
      using assms(4,5) by (simp add: set_bulk_idx_of)
    ultimately show ?thesis
      using gn assms(5) by (subst bulk_loop_eval[where f = "?f g"]) simp_all
  qed
  have gl: "gb_energy_vals (PList es) (PList ns) (PList as) sup_type srs_vals unit n =
      Inr (fold (\<lambda>g a. case ?F g of None \<Rightarrow> a | Some e \<Rightarrow> a[g := ?V e])
             (gb_idx_of sup_type) (replicate n PNone))"
    unfolding gb_energy_vals_def
    using bl assms(4) by (intro gb_loop_eval) (simp_all add: set_gb_idx_of)
  have fm: "fold (\<lambda>g a. case ?F g of None \<Rightarrow> a | Some e \<Rightarrow> a[g := ?V e])
             (gb_idx_of sup_type) (replicate n PNone) = map ?G [0..<n]"
  proof (rule nth_equalityI)
    show "length (fold (\<lambda>g a. case ?F g of None \<Rightarrow> a | Some e \<Rightarrow> a[g := ?V e])
             (gb_idx_of sup_type) (replicate n PNone)) = length (map ?G [0..<n])"
      by (simp add: fold_upd_length)
  next
    fix i
    assume "i < length (fold (\<lambda>g a. case ?F g of None \<Rightarrow> a | Some e \<Rightarrow> a[g := ?V e])
             (gb_idx_of sup_type) (replicate n PNone))"
    then have i: "i < n" by (simp add: fold_upd_length)
    have "fold (\<lambda>g a. case ?F g of None \<Rightarrow> a | Some e \<Rightarrow> a[g := ?V e])
             (gb_idx_of sup_type) (replicate n PNone) ! i =
          (if i \<in> set (gb_idx_of sup_type)
           then (case ?F i of None \<Rightarrow> replicate n PNone ! i | Some e \<Rightarrow> ?V e)
           else replicate n PNone ! i)"
      using i by (intro fold_upd_nth distinct_gb_idx_of) simp
    also have "\<dots> = ?G i"
      using i assms(4) by (simp add: set_gb_idx_of Let_def split: list.splits)
    finally show "fold (\<lambda>g a. case ?F g of None \<Rightarrow> a | Some e \<Rightarrow> a[g := ?V e])
             (gb_idx_of sup_type) (replicate n PNone) ! i = map ?G [0..<n] ! i"
      using i by (simp add: Let_def)
  qed
  show ?thesis by (simp only: gl fm)
qed

lemmas gb_energy_eval =
  gb_energy_vals_def gb_idx_of_def bulk_idx_of_def E_gb_of_def py_subscript_def py_index_def
  as_num_def py_truediv_def Let_def numeral_3_eq_3

text \<open>
  Claim C2 as stated fails: with two bulk simulations of equal series values before a
  bicrystal, the value is computed against the second (energy \<^verbatim>\<open>-490\<close>), not against the
  first (energy \<^verbatim>\<open>-500\<close>), because the inner loop has no \<^verbatim>\<open>break\<close>.
\<close>

theorem gb_energy_first_bulk_counterexample:
  "gb_energy_vals (PList [PInt (- 500), PInt (- 490), PInt (- 510)])
      (PList [PInt 100, PInt 100, PInt 100]) (PList [PNone, PNone, PInt 50])
      [PStr ''bulk'', PStr ''bulk'', PStr ''bicrystal''] [[PInt 0], [PInt 0], [PInt 0]]
      (PStr ''eV/A^2'') 3 =
     Inr [PNone, PNone, PFloat ((- 510 - 100 / 100 * (- 490)) / (2 * 50))] \<and>
   gb_energy_vals (PList [PInt (- 500), PInt (- 490), PInt (- 510)])
      (PList [PInt 100, PInt 100, PInt 100]) (PList [PNone, PNone, PInt 50])
      [PStr ''bulk'', PStr ''bulk'', PStr ''bicrystal''] [[PInt 0], [PInt 0], [PInt 0]]
      (PStr ''eV/A^2'') 3 \<noteq>
     Inr [PNone, PNone, PFloat ((- 510 - 100 / 100 * (- 500)) / (2 * 50))]"
  by (simp add: gb_energy_eval)

theorem gb_energy_unmatched_None_witness:
  "gb_energy_vals (PList [PInt (- 500), PInt (- 505), PInt (- 510)])
      (PList [PInt 100, PInt 100, PInt 100]) (PList [PNone, PInt 50, PInt 50])
      [PStr ''bulk'', PStr ''bicrystal'', PStr ''bicrystal''] [[PInt 1], [PInt 2], [PInt 1]]
      (PStr ''eV/A^2'') 3 = Inr [PNone, PNone, PFloat (- (1 / 10))] \<and>
   (1 :: nat) < length [PNone, PNone, PFloat (- (1 / 10))] \<and>
   [PNone, PNone, PFloat (- (1 / 10))] ! 1 = PNone"
proof -
  have g: "gb_energy_vals (PList [PInt (- 500), PInt (- 505), PInt (- 510)])
      (PList [PInt 100, PInt 100, PInt 100]) (PList [PNone, PInt 50, PInt 50])
      [PStr ''bulk'', PStr ''bicrystal'', PStr ''bicrystal''] [[PInt 1], [PInt 2], [PInt 1]]
      (PStr ''eV/A^2'') 3 = Inr [PNone, PNone, PFloat (- (1 / 10))]"
    by (simp add: gb_energy_eval)
  have b: "py_eq ([PStr ''bulk'', PStr ''bicrystal'', PStr ''bicrystal''] ! 1) (PStr ''bicrystal'')"
    by simp
  have n: "\<forall>j<length [PStr ''bulk'', PStr ''bicrystal'', PStr ''bicrystal''].
      py_eq ([PStr ''bulk'', PStr ''bicrystal'', PStr ''bicrystal''] ! j) (PStr ''bulk'') \<longrightarrow>
      \<not> py_eq_list ([[PInt 1], [PInt 2], [PInt 1]] ! 1) ([[PInt 1], [PInt 2], [PInt 1]] ! j)"
    by (simp add: less_Suc_eq numeral_3_eq_3)
  from gb_energy_unmatched_None[OF g _ b n] g show ?thesis by simp
qed

theorem gb_energy_last_bulk_witness:
  "gb_energy_vals (PList [PInt (- 500), PInt (- 510)]) (PList [PInt 100, PInt 100])
      (PList [PNone, PInt 50]) [PStr ''bulk'', PStr ''bicrystal''] [[PInt 0], [PInt 0]]
      (PStr ''eV/A^2'') 2 = Inr [PNone, PFloat (- 0.1)] \<and>
   gb_energy_vals (PList [PInt (- 500), PInt (- 510)]) (PList [PInt 100, PInt 100])
      (PList [PNone, PInt 50]) [PStr ''bulk'', PStr ''bicrystal''] [[PInt 0], [PInt 0]]
      (PStr ''J/m^2'') 2 = Inr [PNone, PFloat (- 0.1 * 16.02176565)]"
proof -
  let ?es = "[PInt (- 500), PInt (- 510)]"
  let ?ns = "[PInt 100, PInt 100]"
  let ?as = "[PNone, PInt 50]"
  let ?st = "[PStr ''bulk'', PStr ''bicrystal'']"
  let ?srs = "[[PInt 0], [PInt 0]]"
  let ?E = "\<lambda>i::nat. if i = 0 then - 500 else (- 510 :: real)"
  let ?N = "\<lambda>i::nat. (100 :: real)"
  let ?A = "\<lambda>i::nat. (50 :: real)"
  have l: "length ?es = 2" "length ?ns = 2" "length ?as = 2" "length ?st = 2" "length ?srs = 2"
    by simp_all
  have h1: "\<forall>i<2. py_num (?es ! i) = Some (?E i) \<and> py_num (?ns ! i) = Some (?N i)"
    by (simp add: less_Suc_eq numeral_2_eq_2)
  have h2: "\<forall>i<2. py_eq (?st ! i) (PStr ''bicrystal'') \<longrightarrow>
      py_num (?as ! i) = Some (?A i) \<and> ?A i \<noteq> 0"
    by (simp add: less_Suc_eq numeral_2_eq_2)
  have h3: "\<forall>j<2. py_eq (?st ! j) (PStr ''bulk'') \<longrightarrow> ?N j \<noteq> 0"
    by simp
  have b: "bulk_idx_of ?st = [0]"
    by (simp add: bulk_idx_of_def)
  have u: "[0..<2] = [0, Suc 0]"
    by (simp add: numeral_2_eq_2)
  note T = gb_energy_last_bulk[of ?es 2 ?ns ?as ?st ?srs ?E ?N ?A, OF l h1 h2 h3, unfolded b u]
  have w1: "gb_energy_vals (PList ?es) (PList ?ns) (PList ?as) ?st ?srs (PStr ''eV/A^2'') 2 =
      Inr [PNone, PFloat (- 0.1)]"
    using T[of "PStr ''eV/A^2''"] by simp
  have w2: "gb_energy_vals (PList ?es) (PList ?ns) (PList ?as) ?st ?srs (PStr ''J/m^2'') 2 =
      Inr [PNone, PFloat (- 0.1 * 16.02176565)]"
    using T[of "PStr ''J/m^2''"] by simp
  show ?thesis using w1 w2 by (rule conjI)
qed

text \<open>
  The whole function on the example of the specification: one bulk simulation and one
  bicrystal, no series declared, unit \<^verbatim>\<open>J/m^2\<close>.
\<close>

lemma gb_energy_example:
  "gb_energy PREDEFINED_VARS
     \<lparr>variables = [], series_name = [], series_id_val = [], session_id = [PInt 0],
        session_id_idx = [0, 0]\<rparr>
     [[(''name'', PStr ''energy''), (''vals'', PList [PInt (- 500), PInt (- 510)])],
      [(''name'', PStr ''num_atoms''), (''vals'', PList [PInt 100, PInt 100])],
      [(''name'', PStr ''gb_area''), (''vals'', PList [PNone, PInt 50])],
      [(''name'', PStr ''supercell_type''), (''vals'', PList [PStr ''bulk'', PStr ''bicrystal''])],
      [(''name'', PStr ''gb_energy''), (''series_id'', PList []), (''unit'', PStr ''J/m^2''),
       (''vals'', PList [])]] =
   Inr [[(''name'', PStr ''energy''), (''vals'', PList [PInt (- 500), PInt (- 510)])],
        [(''name'', PStr ''num_atoms''), (''vals'', PList [PInt 100, PInt 100])],
        [(''name'', PStr ''gb_area''), (''vals'', PList [PNone, PInt 50])],
        [(''name'', PStr ''supercell_type''), (''vals'', PList [PStr ''bulk'', PStr ''bicrystal''])],
        [(''name'', PStr ''gb_energy''), (''series_id'', PList []), (''unit'', PStr ''J/m^2''),
         (''vals'', PList [PNone, PFloat (- 0.1 * 16.02176565)])]]"
  by (simp add: gb_energy_def vals_of_def num_sims_of_def py_iter_def transpose_list_def
      gb_energy_eval numeral_2_eq_2)

section \<open>Properties of the geometry of parallelepipeds\<close>

lemma vadd_zero3 [simp]: "vadd v zero3 = v" "vadd zero3 v = v"
  by (cases v; simp add: zero3_def)+






lemma mat_vec_zero3 [simp]: "mat_vec M zero3 = zero3"
  by (cases M) (auto simp: zero3_def)














end
